theory Spec2Isabelle
  imports Complex_Main "HOL-Library.Word" "HOL-Library.Sublist"
begin

section \<open>JavaScript strings\<close>

text \<open>
  A JavaScript string is a sequence of UTF-16 code units; \<open>s.length\<close> counts code units
  and the regular expressions of the adapters (written without the \<open>u\<close> flag) work on
  code units. \<open>js\<close> turns an ASCII literal of this theory into such a string.
\<close>

type_synonym jstring = "16 word list"

definition js :: "string \<Rightarrow> jstring" where
  "js s = map of_char s"

text \<open>\<open>xs.join(sep)\<close> on an array of strings.\<close>

fun join :: "jstring \<Rightarrow> jstring list \<Rightarrow> jstring" where
  "join sep [] = []"
| "join sep [x] = x"
| "join sep (x # y # ys) = x @ sep @ join sep (y # ys)"

section \<open>JSON values and \<open>JSON.stringify\<close>\<close>

text \<open>
  A JSON number is an IEEE double in JavaScript. Floating-point arithmetic is not modelled:
  a number is given by the three observations the program can make of it, namely whether
  it is zero (the only falsy numbers a JSON text can denote), whether it is finite
  (\<open>JSON.parse('1e999')\<close> is \<open>Infinity\<close>), and its \<open>Number::toString\<close> text.
\<close>

record jnumber =
  num_zero :: bool
  num_finite :: bool
  num_text :: jstring

text \<open>
  An object is the list of its own enumerable properties in enumeration order.
\<close>

datatype json =
    JNull
  | JBool bool
  | JNum jnumber
  | JStr jstring
  | JArr "json list"
  | JObj "(jstring \<times> json) list"

text \<open>
  \<open>QuoteJSONString\<close> (ECMA-262, 25.5.2.3): the two-character escapes of the table, a
  \<open>\u\<close> escape with four lower-case hexadecimal digits for the other code units below
  0x20 and for unpaired surrogates, every other code unit (and every surrogate pair) as it is.
\<close>

definition hexDigit :: "nat \<Rightarrow> 16 word" where
  "hexDigit n = (if n < 10 then of_nat (48 + n) else of_nat (97 + (n - 10)))"

definition UnicodeEscape :: "16 word \<Rightarrow> jstring" where
  "UnicodeEscape c =
     [0x5C, 0x75,
      hexDigit (unat c div 4096 mod 16), hexDigit (unat c div 256 mod 16),
      hexDigit (unat c div 16 mod 16), hexDigit (unat c mod 16)]"

definition isLeadingSurrogate :: "16 word \<Rightarrow> bool" where
  "isLeadingSurrogate c \<longleftrightarrow> 0xD800 \<le> c \<and> c \<le> 0xDBFF"

definition isTrailingSurrogate :: "16 word \<Rightarrow> bool" where
  "isTrailingSurrogate c \<longleftrightarrow> 0xDC00 \<le> c \<and> c \<le> 0xDFFF"

definition quoteUnit :: "16 word \<Rightarrow> jstring" where
  "quoteUnit c =
     (if c = 0x08 then [0x5C, 0x62]
      else if c = 0x09 then [0x5C, 0x74]
      else if c = 0x0A then [0x5C, 0x6E]
      else if c = 0x0C then [0x5C, 0x66]
      else if c = 0x0D then [0x5C, 0x72]
      else if c = 0x22 then [0x5C, 0x22]
      else if c = 0x5C then [0x5C, 0x5C]
      else if c < 0x20 \<or> isLeadingSurrogate c \<or> isTrailingSurrogate c then UnicodeEscape c
      else [c])"

fun quoteUnits :: "jstring \<Rightarrow> jstring" where
  "quoteUnits [] = []"
| "quoteUnits [c] = quoteUnit c"
| "quoteUnits (c # d # cs) =
     (if isLeadingSurrogate c \<and> isTrailingSurrogate d then c # d # quoteUnits cs
      else quoteUnit c @ quoteUnits (d # cs))"

definition QuoteJSONString :: "jstring \<Rightarrow> jstring" where
  "QuoteJSONString s = [0x22] @ quoteUnits s @ [0x22]"

text \<open>
  \<open>SerializeJSONProperty\<close> with \<open>SerializeJSONObject\<close> and \<open>SerializeJSONArray\<close>
  (ECMA-262, 25.5.2.2 to 25.5.2.6) on the values that \<open>JSON.parse\<close> and the message
  literals produce (no \<open>undefined\<close>, no function, no callable \<open>toJSON\<close>). \<open>gap\<close> is the
  indentation unit, \<open>indent\<close> the current indentation.
\<close>

fun SerializeJSONProperty :: "jstring \<Rightarrow> jstring \<Rightarrow> json \<Rightarrow> jstring" where
  "SerializeJSONProperty gap indent JNull = js ''null''"
| "SerializeJSONProperty gap indent (JBool b) = (if b then js ''true'' else js ''false'')"
| "SerializeJSONProperty gap indent (JNum n) = (if num_finite n then num_text n else js ''null'')"
| "SerializeJSONProperty gap indent (JStr s) = QuoteJSONString s"
| "SerializeJSONProperty gap indent (JArr vs) =
     (let stepback = indent;
          indent = indent @ gap;
          partial = map (\<lambda>v. SerializeJSONProperty gap indent v) vs
      in if partial = [] then js ''[]''
         else if gap = [] then js ''['' @ join (js '','') partial @ js '']''
         else js ''[\<newline>'' @ indent @ join (js '',\<newline>'' @ indent) partial
                @ js ''\<newline>'' @ stepback @ js '']'')"
| "SerializeJSONProperty gap indent (JObj ms) =
     (let stepback = indent;
          indent = indent @ gap;
          partial = map (\<lambda>(k, v). QuoteJSONString k @ js '':''
                           @ (if gap \<noteq> [] then js '' '' else js '''')
                           @ SerializeJSONProperty gap indent v) ms
      in if partial = [] then js ''{}''
         else if gap = [] then js ''{'' @ join (js '','') partial @ js ''}''
         else js ''{\<newline>'' @ indent @ join (js '',\<newline>'' @ indent) partial
                @ js ''\<newline>'' @ stepback @ js ''}'')"

text \<open>
  \<open>JSON.stringify(value, null, space)\<close> for a number \<open>space\<close>: the gap is
  \<open>min(10, space)\<close> spaces; \<open>JSON.stringify(value)\<close> is the case \<open>space = 0\<close>.
\<close>

definition JSON_stringify :: "nat \<Rightarrow> json \<Rightarrow> jstring" where
  "JSON_stringify space v = SerializeJSONProperty (replicate (min 10 space) 0x20) [] v"

section \<open>Messages\<close>

text \<open>
  \<open>interface Message { role: 'system' | 'user' | 'assistant'; content: string; }\<close> of the
  module \<open>types\<close>. The interface gives the two properties that the builders read, as
  strings; it is erased at run time and fixes neither the order of the properties of an
  object nor the absence of further ones. The handler passes the objects of the request
  body on as they were parsed, and \<open>JSON.stringify\<close> writes the own enumerable properties
  of an object in their order. So a message is given by what \<open>m.role\<close> and \<open>m.content\<close>
  read and by the list of its own properties in order: the place of \<open>role\<close>, the place
  of \<open>content\<close>, and every other property with its key and value. The role is kept as a
  string: the builders only compare it with \<open>'system'\<close>. An object has a key once, so the
  list of an object of a request holds \<open>RoleProperty\<close> and \<open>ContentProperty\<close> at most
  once each; the definitions and lemmas below do not depend on it.
\<close>

datatype property =
    RoleProperty
  | ContentProperty
  | OtherProperty jstring json

record Message =
  role :: jstring
  content :: jstring
  properties :: "property list"

text \<open>The object that a message is, as a JSON value.\<close>

definition message_json :: "Message \<Rightarrow> json" where
  "message_json m =
     JObj (map (\<lambda>p. case p of
                      RoleProperty \<Rightarrow> (js ''role'', JStr (role m))
                    | ContentProperty \<Rightarrow> (js ''content'', JStr (content m))
                    | OtherProperty key v \<Rightarrow> (key, v))
             (properties m))"

section \<open>Prompt builders\<close>

text \<open>\<open>CONVERSATION_SYSTEM_PROMPT\<close> of the module \<open>claude_code\<close>.\<close>

definition claude_CONVERSATION_SYSTEM_PROMPT :: jstring where
  "claude_CONVERSATION_SYSTEM_PROMPT =
     js (''You are participating in a conversation. When conversation history is provided ''
       @ ''in JSON format, use it to understand the context and respond appropriately to ''
       @ ''the current user message.'')"

text \<open>\<open>CONVERSATION_SYSTEM_PROMPT\<close> of the module \<open>gemini_cli\<close> (a template literal of twenty lines).\<close>

definition gemini_CONVERSATION_SYSTEM_PROMPT :: jstring where
  \<open>gemini_CONVERSATION_SYSTEM_PROMPT =
     js (''You are a generic, domain-agnostic AI assistant.\<newline>''
       @ ''\<newline>''
       @ ''Identity and scope:\<newline>''
       @ ''- Do not identify as a specific product/tool or coding assistant.\<newline>''
       @ ''- Do not list capabilities or tools unless the user explicitly asks.\<newline>''
       @ ''- If a role label is required, use a minimal "assistant" identity only.\<newline>''
       @ ''\<newline>''
       @ ''Environment and tools:\<newline>''
       @ ''- Do not reference or infer local environment details ''
       @ ''(repos, files, editor, OS, terminal, processes, network).\<newline>''
       @ ''- Do not claim to run commands or open files. Offer steps as suggestions instead.\<newline>''
       @ ''- If the user shares environment details, do not extrapolate beyond what is provided.\<newline>''
       @ ''\<newline>''
       @ ''Style and conduct:\<newline>''
       @ ''- Default to brief, direct, and helpful answers. Avoid long introductions.\<newline>''
       @ ''- For simple greetings (e.g., "hi"), reply with a short friendly greeting only.\<newline>''
       @ ''- Ask one concise clarification question when requirements are ambiguous.\<newline>''
       @ ''\<newline>''
       @ ''Conversation handling:\<newline>''
       @ ''- When conversation history is provided in JSON, use it for context and respond ''
       @ ''to the latest user message.\<newline>''
       @ ''- Focus on the user's request and avoid unnecessary commentary.'')\<close>


text \<open>
  \<open>ClaudeCodeAdapter.buildClaudeCodeCommand\<close>. \<open>messages.find\<close> gives the first message
  of role \<open>system\<close>; a string is falsy exactly when it is empty; \<open>xs.slice(0, -1)\<close> is the
  first \<open>max(xs.length - 1, 0)\<close> elements; \<open>xs[xs.length - 1]\<close> is \<open>undefined\<close> (falsy) on
  the empty array and an object (truthy) otherwise; a template literal inserts a string as
  it is.
\<close>

record ClaudeCodeCommand =
  systemPrompt :: jstring
  userPrompt :: jstring

definition buildClaudeCodeCommand :: "Message list \<Rightarrow> ClaudeCodeCommand" where
  "buildClaudeCodeCommand messages =
     (let systemMsg = find (\<lambda>m. role m = js ''system'') messages;
          baseSystemPrompt =
            (case systemMsg of None \<Rightarrow> js ''''
             | Some m \<Rightarrow> if content m \<noteq> [] then content m else js '''');
          systemPrompt =
            (if baseSystemPrompt \<noteq> []
             then baseSystemPrompt @ js ''\<newline>\<newline>'' @ claude_CONVERSATION_SYSTEM_PROMPT
             else claude_CONVERSATION_SYSTEM_PROMPT);
          userPrompt = js '''';
          conversationMessages = filter (\<lambda>m. role m \<noteq> js ''system'') messages;
          userPrompt =
            (if length conversationMessages > 1
             then let history = take (length conversationMessages - 1) conversationMessages
                  in userPrompt @ js ''Conversation history:\<newline>''
                       @ JSON_stringify 2 (JArr (map message_json history))
                       @ js ''\<newline>\<newline>''
             else userPrompt);
          latestMsg =
            (if conversationMessages = [] then None
             else Some (conversationMessages ! (length conversationMessages - 1)));
          userPrompt =
            (case latestMsg of None \<Rightarrow> userPrompt
             | Some m \<Rightarrow> userPrompt @ js ''Current user message: '' @ content m)
      in \<lparr>systemPrompt = systemPrompt, userPrompt = userPrompt\<rparr>)"

text \<open>
  \<open>GeminiCLIAdapter.buildGeminiPrompt\<close>: the same steps, on one string that starts with
  the system section.
\<close>

definition buildGeminiPrompt :: "Message list \<Rightarrow> jstring" where
  "buildGeminiPrompt messages =
     (let systemMsg = find (\<lambda>m. role m = js ''system'') messages;
          baseSystemPrompt =
            (case systemMsg of None \<Rightarrow> js ''''
             | Some m \<Rightarrow> if content m \<noteq> [] then content m else js '''');
          systemPrompt =
            (if baseSystemPrompt \<noteq> []
             then baseSystemPrompt @ js ''\<newline>\<newline>'' @ gemini_CONVERSATION_SYSTEM_PROMPT
             else gemini_CONVERSATION_SYSTEM_PROMPT);
          prompt = js ''System instructions:\<newline>'' @ systemPrompt @ js ''\<newline>\<newline>'';
          conversationMessages = filter (\<lambda>m. role m \<noteq> js ''system'') messages;
          prompt =
            (if length conversationMessages > 1
             then let history = take (length conversationMessages - 1) conversationMessages
                  in prompt @ js ''Conversation history:\<newline>''
                       @ JSON_stringify 2 (JArr (map message_json history))
                       @ js ''\<newline>\<newline>''
             else prompt);
          latestMsg =
            (if conversationMessages = [] then None
             else Some (conversationMessages ! (length conversationMessages - 1)));
          prompt =
            (case latestMsg of None \<Rightarrow> prompt
             | Some m \<Rightarrow> prompt @ js ''Current user message: '' @ content m)
      in prompt)"

section \<open>Output normalisation\<close>

subsection \<open>Character classes of the regular expressions\<close>

text \<open>
  \<open>LineTerminator\<close>: what \<open>.\<close> does not match and what \<open>^\<close> (with the \<open>m\<close> flag) follows.
\<close>

definition isLineTerminator :: "16 word \<Rightarrow> bool" where
  "isLineTerminator c \<longleftrightarrow> c = 0x0A \<or> c = 0x0D \<or> c = 0x2028 \<or> c = 0x2029"

text \<open>
  \<open>\s\<close>, which is also what \<open>String.prototype.trim\<close> removes: \<open>WhiteSpace\<close> and
  \<open>LineTerminator\<close>.
\<close>

definition isWhiteSpace :: "16 word \<Rightarrow> bool" where
  "isWhiteSpace c \<longleftrightarrow>
     c = 0x09 \<or> c = 0x0A \<or> c = 0x0B \<or> c = 0x0C \<or> c = 0x0D \<or> c = 0x20 \<or> c = 0xA0
     \<or> c = 0x1680 \<or> (0x2000 \<le> c \<and> c \<le> 0x200A) \<or> c = 0x2028 \<or> c = 0x2029
     \<or> c = 0x202F \<or> c = 0x205F \<or> c = 0x3000 \<or> c = 0xFEFF"

text \<open>
  The class \<open>[\[...\]]\<close> of the second pattern: the two square brackets and the ten
  braille spinner glyphs U+280B, U+2819, U+2839, U+2838, U+283C, U+2834, U+2826, U+2827,
  U+2807, U+280F.
\<close>

definition isSpinner :: "16 word \<Rightarrow> bool" where
  "isSpinner c \<longleftrightarrow>
     c = 0x5B \<or> c = 0x280B \<or> c = 0x2819 \<or> c = 0x2839 \<or> c = 0x2838 \<or> c = 0x283C
     \<or> c = 0x2834 \<or> c = 0x2826 \<or> c = 0x2827 \<or> c = 0x2807 \<or> c = 0x280F \<or> c = 0x5D"

subsection \<open>\<open>s.replace(re, '')\<close> for a global pattern\<close>

text \<open>
  A pattern is given by its matcher at one index: from the code unit before the index
  (none at index 0), which is all that \<open>^\<close> looks at, and the text from the index on, the
  length of the match there, if any. \<open>replace\<close> with the \<open>g\<close> flag scans from the left:
  where the pattern matches, the match is dropped and the scan goes on behind it (one
  code unit further when the match is empty); elsewhere the code unit is kept.
\<close>

type_synonym matcher = "16 word option \<Rightarrow> jstring \<Rightarrow> nat option"

function removeMatches :: "matcher \<Rightarrow> 16 word option \<Rightarrow> jstring \<Rightarrow> jstring" where
  "removeMatches re prev [] = []"
| "removeMatches re prev (c # cs) =
     (case re prev (c # cs) of
        None \<Rightarrow> c # removeMatches re (Some c) cs
      | Some n \<Rightarrow>
          if n = 0 then c # removeMatches re (Some c) cs
          else removeMatches re (Some (last (take n (c # cs)))) (drop n (c # cs)))"
  by pat_completeness auto
termination
  by (relation "measure (\<lambda>(re, prev, s). length s)") auto

text \<open>\<open>re.test(s)\<close> read from an index on: the pattern matches at some index of the text.\<close>

fun matchesSomewhere :: "matcher \<Rightarrow> 16 word option \<Rightarrow> jstring \<Rightarrow> bool" where
  "matchesSomewhere re prev [] = (re prev [] \<noteq> None)"
| "matchesSomewhere re prev (c # cs) =
     (re prev (c # cs) \<noteq> None \<or> matchesSomewhere re (Some c) cs)"

text \<open>\<open>^\<close> with the \<open>m\<close> flag: at index 0 or behind a line terminator.\<close>

definition lineStart :: "16 word option \<Rightarrow> bool" where
  "lineStart prev = (case prev of None \<Rightarrow> True | Some p \<Rightarrow> isLineTerminator p)"

text \<open>
  \<open>/^.*\r/gm\<close>: at a line start, the longest run of code units that are not line
  terminators, then a carriage return. A shorter run is followed by a code unit of the
  run, never by a carriage return, so backtracking finds nothing more.
\<close>

definition carriageReturnLine :: matcher where
  "carriageReturnLine prev s =
     (if lineStart prev
      then (let run = takeWhile (\<lambda>c. \<not> isLineTerminator c) s
            in case drop (length run) s of
                 [] \<Rightarrow> None
               | c # _ \<Rightarrow> if c = 0x0D then Some (length run + 1) else None)
      else None)"

text \<open>
  \<open>/^\s*[\[...\]]/gm\<close>: at a line start, the longest run of white space, then one code
  unit of the class. No code unit of the class is white space, so again a shorter run
  does not match.
\<close>

definition spinnerStart :: matcher where
  "spinnerStart prev s =
     (if lineStart prev
      then (let ws = takeWhile isWhiteSpace s
            in case drop (length ws) s of
                 [] \<Rightarrow> None
               | c # _ \<Rightarrow> if isSpinner c then Some (length ws + 1) else None)
      else None)"

text \<open>\<open>s.trim()\<close>\<close>

definition trim :: "jstring \<Rightarrow> jstring" where
  "trim s = rev (dropWhile isWhiteSpace (rev (dropWhile isWhiteSpace s)))"

subsection \<open>\<open>cleanOutput\<close>\<close>

text \<open>
  The method is the same text in \<open>ClaudeCodeAdapter\<close> and in \<open>GeminiCLIAdapter\<close>.
  \<open>stripAnsi\<close> is the default export of the npm package \<open>strip-ansi\<close>, which is not part of
  the repository: it is a parameter.
\<close>

definition cleanOutput :: "(jstring \<Rightarrow> jstring) \<Rightarrow> jstring \<Rightarrow> jstring" where
  "cleanOutput stripAnsi stdout =
     (let cleaned = stripAnsi stdout;
          cleaned = removeMatches carriageReturnLine None cleaned;
          cleaned = removeMatches spinnerStart None cleaned;
          cleaned = trim cleaned
      in cleaned)"

text \<open>
  The stand-in that the repository's tests give for \<open>strip-ansi\<close>:
  \<open>(str) => str.replace(/\x1B\[[0-9;]*m/g, '')\<close>. The pattern is ESC, \<open>[\<close>, the longest run
  of digits and semicolons, \<open>m\<close>.
\<close>

definition sgrSequence :: matcher where
  "sgrSequence prev s =
     (case s of
        e # b # rest \<Rightarrow>
          if e = 0x1B \<and> b = 0x5B
          then (let params = takeWhile (\<lambda>c. (0x30 \<le> c \<and> c \<le> 0x39) \<or> c = 0x3B) rest
                in case drop (length params) rest of
                     [] \<Rightarrow> None
                   | c # _ \<Rightarrow> if c = 0x6D then Some (length params + 3) else None)
          else None
      | _ \<Rightarrow> None)"

definition stripAnsi_mock :: "jstring \<Rightarrow> jstring" where
  "stripAnsi_mock str = removeMatches sgrSequence None str"

section \<open>\<open>JSON.parse\<close>\<close>

text \<open>
  \<open>JSON.parse\<close> is a built-in of the language; the model follows the JSON grammar of
  ECMA-262 (25.5.1) in two passes, a tokenizer and a stack automaton over the tokens, both
  total. \<open>None\<close> stands for the \<open>SyntaxError\<close> that \<open>JSON.parse\<close> throws. The conversion of
  a number token to a double is a parameter, see \<open>jnumber\<close>.
\<close>

datatype token =
    TLBrace | TRBrace | TLBracket | TRBracket | TColon | TComma
  | TString jstring | TNumber jstring | TTrue | TFalse | TNull

definition isJSONWhiteSpace :: "16 word \<Rightarrow> bool" where
  "isJSONWhiteSpace c \<longleftrightarrow> c = 0x09 \<or> c = 0x0A \<or> c = 0x0D \<or> c = 0x20"

definition isDigit :: "16 word \<Rightarrow> bool" where
  "isDigit c \<longleftrightarrow> 0x30 \<le> c \<and> c \<le> 0x39"

definition hexValue :: "16 word \<Rightarrow> nat option" where
  "hexValue c =
     (if 0x30 \<le> c \<and> c \<le> 0x39 then Some (unat c - 48)
      else if 0x41 \<le> c \<and> c \<le> 0x46 then Some (unat c - 55)
      else if 0x61 \<le> c \<and> c \<le> 0x66 then Some (unat c - 87)
      else None)"

definition hex4 :: "16 word \<Rightarrow> 16 word \<Rightarrow> 16 word \<Rightarrow> 16 word \<Rightarrow> 16 word option" where
  "hex4 a b c d =
     (case (hexValue a, hexValue b, hexValue c, hexValue d) of
        (Some x, Some y, Some z, Some w) \<Rightarrow> Some (of_nat (4096 * x + 256 * y + 16 * z + w))
      | _ \<Rightarrow> None)"

text \<open>The single-character escapes \<open>\" \\ \/ \b \f \n \r \t\<close>.\<close>

definition unescape :: "16 word \<Rightarrow> 16 word option" where
  "unescape e =
     (if e = 0x22 then Some 0x22
      else if e = 0x5C then Some 0x5C
      else if e = 0x2F then Some 0x2F
      else if e = 0x62 then Some 0x08
      else if e = 0x66 then Some 0x0C
      else if e = 0x6E then Some 0x0A
      else if e = 0x72 then Some 0x0D
      else if e = 0x74 then Some 0x09
      else None)"

text \<open>
  The text behind an opening quote: the string it denotes and the number of code units it
  takes, closing quote included. A code unit below 0x20 must be escaped.
\<close>

fun lexString :: "jstring \<Rightarrow> nat \<Rightarrow> jstring \<Rightarrow> (jstring \<times> nat) option" where
  "lexString acc n [] = None"
| "lexString acc n (c # cs) =
     (if c = 0x22 then Some (rev acc, Suc n)
      else if c = 0x5C then
        (case cs of
           [] \<Rightarrow> None
         | e # cs' \<Rightarrow>
             if e = 0x75 then
               (case cs' of
                  h1 # h2 # h3 # h4 # cs'' \<Rightarrow>
                    (case hex4 h1 h2 h3 h4 of
                       None \<Rightarrow> None
                     | Some u \<Rightarrow> lexString (u # acc) (n + 6) cs'')
                | _ \<Rightarrow> None)
             else
               (case unescape e of
                  None \<Rightarrow> None
                | Some x \<Rightarrow> lexString (x # acc) (n + 2) cs'))
      else if c < 0x20 then None
      else lexString (c # acc) (Suc n) cs)"

text \<open>
  The number grammar \<open>-? (0 | [1-9][0-9]*) (. [0-9]+)? ([eE] [+-]? [0-9]+)?\<close>, read from
  the right end: exponent, fraction, integer part, sign.
\<close>

definition numberExponent :: "jstring \<Rightarrow> bool" where
  "numberExponent s =
     (case s of
        [] \<Rightarrow> True
      | e # r \<Rightarrow>
          (e = 0x65 \<or> e = 0x45) \<and>
          (let digits = (case r of
                           [] \<Rightarrow> r
                         | sg # r' \<Rightarrow> if sg = 0x2B \<or> sg = 0x2D then r' else r)
           in digits \<noteq> [] \<and> list_all isDigit digits))"

definition numberFraction :: "jstring \<Rightarrow> bool" where
  "numberFraction s =
     (case s of
        [] \<Rightarrow> True
      | d # r \<Rightarrow>
          if d = 0x2E then takeWhile isDigit r \<noteq> [] \<and> numberExponent (dropWhile isDigit r)
          else numberExponent s)"

definition numberInteger :: "jstring \<Rightarrow> bool" where
  "numberInteger s =
     (case s of
        [] \<Rightarrow> False
      | d # r \<Rightarrow>
          if d = 0x30 then numberFraction r
          else if isDigit d then numberFraction (dropWhile isDigit r)
          else False)"

definition isJSONNumber :: "jstring \<Rightarrow> bool" where
  "isJSONNumber s =
     (case s of
        [] \<Rightarrow> False
      | m # r \<Rightarrow> if m = 0x2D then numberInteger r else numberInteger s)"

text \<open>
  The code units a number can contain. No token that may follow a number starts with one
  of them, so the longest run of them either is the number or the text is not JSON.
\<close>

definition isNumberChar :: "16 word \<Rightarrow> bool" where
  "isNumberChar c \<longleftrightarrow> isDigit c \<or> c = 0x2B \<or> c = 0x2D \<or> c = 0x2E \<or> c = 0x45 \<or> c = 0x65"

function tokenize :: "jstring \<Rightarrow> token list option" where
  "tokenize [] = Some []"
| "tokenize (c # cs) =
     (if isJSONWhiteSpace c then tokenize cs
      else if c = 0x7B then map_option ((#) TLBrace) (tokenize cs)
      else if c = 0x7D then map_option ((#) TRBrace) (tokenize cs)
      else if c = 0x5B then map_option ((#) TLBracket) (tokenize cs)
      else if c = 0x5D then map_option ((#) TRBracket) (tokenize cs)
      else if c = 0x3A then map_option ((#) TColon) (tokenize cs)
      else if c = 0x2C then map_option ((#) TComma) (tokenize cs)
      else if c = 0x22 then
        (case lexString [] 0 cs of
           None \<Rightarrow> None
         | Some (str, n) \<Rightarrow> map_option ((#) (TString str)) (tokenize (drop n cs)))
      else if c = 0x2D \<or> isDigit c then
        (let lexeme = c # takeWhile isNumberChar cs
         in if isJSONNumber lexeme
            then map_option ((#) (TNumber lexeme)) (tokenize (dropWhile isNumberChar cs))
            else None)
      else if c = 0x74 \<and> take 3 cs = js ''rue'' then map_option ((#) TTrue) (tokenize (drop 3 cs))
      else if c = 0x66 \<and> take 4 cs = js ''alse'' then map_option ((#) TFalse) (tokenize (drop 4 cs))
      else if c = 0x6E \<and> take 3 cs = js ''ull'' then map_option ((#) TNull) (tokenize (drop 3 cs))
      else None)"
  by pat_completeness auto
termination
  by (relation "measure length") (auto simp: le_imp_less_Suc length_dropWhile_le)

text \<open>
  The properties of an object created by \<open>JSON.parse\<close>, in the order in which
  \<open>JSON.stringify\<close> and \<open>for-in\<close> see them (\<open>OrdinaryOwnPropertyKeys\<close>): the array
  indices (canonical decimal numerals below \<open>2^32 - 1\<close>) in ascending order, then the other
  keys in the order of their creation. A key that occurs again gets the new value and
  keeps its place.
\<close>

definition arrayIndex :: "jstring \<Rightarrow> int option" where
  "arrayIndex k =
     (if k = [0x30] then Some 0
      else if k \<noteq> [] \<and> list_all isDigit k \<and> hd k \<noteq> 0x30 \<and> length k \<le> 10
      then (let n = foldl (\<lambda>n d. 10 * n + (uint d - 48)) 0 k
            in if n < 4294967295 then Some n else None)
      else None)"

fun insertIndexed :: "int \<Rightarrow> jstring \<times> json \<Rightarrow> (jstring \<times> json) list \<Rightarrow> (jstring \<times> json) list" where
  "insertIndexed i kv [] = [kv]"
| "insertIndexed i kv ((k', v') # ms) =
     (case arrayIndex k' of
        None \<Rightarrow> kv # (k', v') # ms
      | Some j \<Rightarrow> if j < i then (k', v') # insertIndexed i kv ms else kv # (k', v') # ms)"

definition defineProperty :: "(jstring \<times> json) list \<Rightarrow> jstring \<Rightarrow> json \<Rightarrow> (jstring \<times> json) list" where
  "defineProperty ms k v =
     (if map_of ms k \<noteq> None then map (\<lambda>(k', v'). if k' = k then (k', v) else (k', v')) ms
      else case arrayIndex k of
             None \<Rightarrow> ms @ [(k, v)]
           | Some i \<Rightarrow> insertIndexed i (k, v) ms)"

text \<open>
  The automaton. A frame is an array or an object that is still open: the elements read
  so far (last one first), or the properties defined so far with the key that is being
  read. The states say what may come next.
\<close>

datatype frame =
    ArrayFrame "json list"
  | ObjectFrame "(jstring \<times> json) list" jstring

datatype pstate =
    PValue "frame list"
  | PFirstElement "frame list"
  | PFirstKey "frame list"
  | PKey "frame list"
  | PColon "frame list"
  | PNext "frame list"
  | PDone json

text \<open>A complete value goes to the innermost open frame, or is the result.\<close>

fun deliver :: "frame list \<Rightarrow> json \<Rightarrow> pstate" where
  "deliver [] v = PDone v"
| "deliver (ArrayFrame acc # st) v = PNext (ArrayFrame (v # acc) # st)"
| "deliver (ObjectFrame ms k # st) v = PNext (ObjectFrame (defineProperty ms k v) k # st)"

fun startValue :: "(jstring \<Rightarrow> jnumber) \<Rightarrow> frame list \<Rightarrow> token \<Rightarrow> pstate option" where
  "startValue num st TLBracket = Some (PFirstElement (ArrayFrame [] # st))"
| "startValue num st TLBrace = Some (PFirstKey (ObjectFrame [] [] # st))"
| "startValue num st (TString s) = Some (deliver st (JStr s))"
| "startValue num st (TNumber lexeme) = Some (deliver st (JNum (num lexeme)))"
| "startValue num st TTrue = Some (deliver st (JBool True))"
| "startValue num st TFalse = Some (deliver st (JBool False))"
| "startValue num st TNull = Some (deliver st JNull)"
| "startValue num st _ = None"

fun startKey :: "frame list \<Rightarrow> token \<Rightarrow> pstate option" where
  "startKey (ObjectFrame ms _ # st) (TString k) = Some (PColon (ObjectFrame ms k # st))"
| "startKey _ _ = None"

fun step :: "(jstring \<Rightarrow> jnumber) \<Rightarrow> pstate \<Rightarrow> token \<Rightarrow> pstate option" where
  "step num (PValue st) t = startValue num st t"
| "step num (PFirstElement (ArrayFrame acc # st)) TRBracket = Some (deliver st (JArr []))"
| "step num (PFirstElement st) t = startValue num st t"
| "step num (PFirstKey (ObjectFrame ms k # st)) TRBrace = Some (deliver st (JObj []))"
| "step num (PFirstKey st) t = startKey st t"
| "step num (PKey st) t = startKey st t"
| "step num (PColon st) TColon = Some (PValue st)"
| "step num (PColon st) _ = None"
| "step num (PNext (ArrayFrame acc # st)) TComma = Some (PValue (ArrayFrame acc # st))"
| "step num (PNext (ArrayFrame acc # st)) TRBracket = Some (deliver st (JArr (rev acc)))"
| "step num (PNext (ObjectFrame ms k # st)) TComma = Some (PKey (ObjectFrame ms k # st))"
| "step num (PNext (ObjectFrame ms k # st)) TRBrace = Some (deliver st (JObj ms))"
| "step num (PNext _) _ = None"
| "step num (PDone v) _ = None"

fun steps :: "(jstring \<Rightarrow> jnumber) \<Rightarrow> pstate \<Rightarrow> token list \<Rightarrow> pstate option" where
  "steps num q [] = Some q"
| "steps num q (t # ts) = (case step num q t of None \<Rightarrow> None | Some q' \<Rightarrow> steps num q' ts)"

definition JSON_parse :: "(jstring \<Rightarrow> jnumber) \<Rightarrow> jstring \<Rightarrow> json option" where
  "JSON_parse num text =
     (case tokenize text of
        None \<Rightarrow> None
      | Some ts \<Rightarrow>
          (case steps num (PValue []) ts of
             Some (PDone v) \<Rightarrow> Some v
           | _ \<Rightarrow> None))"

section \<open>\<open>extractResponse\<close>\<close>

text \<open>
  What the function observes of a parsed value. \<open>v.name\<close> is read for the five names
  \<open>candidates\<close>, \<open>content\<close>, \<open>parts\<close>, \<open>text\<close> and \<open>response\<close> only; no prototype has a
  property of these names, so the result is \<open>undefined\<close> (\<open>None\<close>) unless \<open>v\<close> is an object
  with that own property. Reading a property of \<open>null\<close> throws a \<open>TypeError\<close>, which the
  callers below write out.
\<close>

fun get :: "json \<Rightarrow> jstring \<Rightarrow> json option" where
  "get (JObj ms) name = map_of ms name"
| "get _ name = None"

text \<open>Truthiness; \<open>undefined\<close> is \<open>None\<close>.\<close>

fun truthy :: "json option \<Rightarrow> bool" where
  "truthy None = False"
| "truthy (Some JNull) = False"
| "truthy (Some (JBool b)) = b"
| "truthy (Some (JNum n)) = (\<not> num_zero n)"
| "truthy (Some (JStr s)) = (s \<noteq> [])"
| "truthy (Some (JArr vs)) = True"
| "truthy (Some (JObj ms)) = True"

text \<open>
  \<open>ToString\<close>, as \<open>Array.prototype.join\<close> applies it to an element; \<open>None\<close> is a thrown
  \<open>TypeError\<close>. An array is joined with commas, \<open>null\<close> elements giving the empty string.
  An object parsed from JSON has no callable property, so it gives \<open>[object Object]\<close>
  through \<open>Object.prototype.toString\<close> unless an own property \<open>toString\<close> hides that
  method, in which case \<open>OrdinaryToPrimitive\<close> finds no primitive and throws.
\<close>

fun ToString :: "json \<Rightarrow> jstring option" where
  "ToString JNull = Some (js ''null'')"
| "ToString (JBool b) = Some (if b then js ''true'' else js ''false'')"
| "ToString (JNum n) = Some (num_text n)"
| "ToString (JStr s) = Some s"
| "ToString (JArr vs) =
     map_option (join (js '','')) (those (map (\<lambda>v. if v = JNull then Some [] else ToString v) vs))"
| "ToString (JObj ms) =
     (if map_of ms (js ''toString'') \<noteq> None then None else Some (js ''[object Object]''))"

text \<open>
  The two nested conditions of the candidates shape; the result is the array
  \<open>candidate.content.parts\<close> when both hold.
  \<^verbatim>\<open>
  if (parsed.candidates && Array.isArray(parsed.candidates) && parsed.candidates[0]) {
    const candidate = parsed.candidates[0];
    if (candidate.content && candidate.content.parts && Array.isArray(candidate.content.parts)) {
  \<close>
\<close>

definition candidateParts :: "json \<Rightarrow> json list option" where
  "candidateParts parsed =
     (case get parsed (js ''candidates'') of
        Some (JArr (candidate # _)) \<Rightarrow>
          if truthy (Some candidate) then
            (if truthy (get candidate (js ''content'')) then
               (case get (the (get candidate (js ''content''))) (js ''parts'') of
                  Some (JArr parts) \<Rightarrow> Some parts
                | _ \<Rightarrow> None)
             else None)
          else None
      | _ \<Rightarrow> None)"

text \<open>\<open>(part) => part.text || ''\<close>; \<open>None\<close> is the \<open>TypeError\<close> on a \<open>null\<close> part.\<close>

definition partText :: "json \<Rightarrow> json option" where
  "partText part =
     (if part = JNull then None
      else if truthy (get part (js ''text'')) then get part (js ''text'')
      else Some (JStr (js '''')))"

text \<open>
  The body of the \<open>try\<close> block; \<open>None\<close> when it throws (the \<open>SyntaxError\<close> of
  \<open>JSON.parse\<close>, or a \<open>TypeError\<close>). The result is a JavaScript value: the declared
  return type is \<open>string\<close>, but \<open>parsed\<close> has type \<open>any\<close> and \<open>parsed.text\<close> and
  \<open>parsed.response\<close> are returned as they are.
\<close>

definition extractParsed :: "(jstring \<Rightarrow> jnumber) \<Rightarrow> jstring \<Rightarrow> json option" where
  "extractParsed num cleaned =
     (case JSON_parse num cleaned of
        None \<Rightarrow> None
      | Some parsed \<Rightarrow>
          (case parsed of
             JStr s \<Rightarrow> Some (JStr s)
           | JNull \<Rightarrow> None
           | _ \<Rightarrow>
              (case candidateParts parsed of
                 Some parts \<Rightarrow>
                   (case those (map partText parts) of
                      None \<Rightarrow> None
                    | Some texts \<Rightarrow>
                        map_option (\<lambda>strs. JStr (join (js '''') strs)) (those (map ToString texts)))
               | None \<Rightarrow>
                   if truthy (get parsed (js ''text'')) then get parsed (js ''text'')
                   else if truthy (get parsed (js ''response'')) then get parsed (js ''response'')
                   else Some (JStr (JSON_stringify 0 parsed)))))"

text \<open>
  The host functions of the Gemini adapter that are not repository code: \<open>strip-ansi\<close> and
  the conversion of a JSON number token to a double.
\<close>

record host =
  stripAnsi :: "jstring \<Rightarrow> jstring"
  numberOf :: "jstring \<Rightarrow> jnumber"

definition extractResponse :: "host \<Rightarrow> jstring \<Rightarrow> json" where
  "extractResponse h stdout =
     (if stdout = [] then JStr (js '''')
      else let cleaned = trim (stripAnsi h stdout)
           in case extractParsed (numberOf h) cleaned of
                Some result \<Rightarrow> result
              | None \<Rightarrow> JStr (cleanOutput (stripAnsi h) cleaned))"

text \<open>
  A host for the examples: the tests' stand-in for \<open>strip-ansi\<close>, and numbers read as
  written, which is what a double gives for a canonical decimal integer of magnitude below
  \<open>2^53\<close> (zero exactly when the numeral is \<open>0\<close>).
\<close>

definition test_host :: host where
  "test_host =
     \<lparr>stripAnsi = stripAnsi_mock,
      numberOf = (\<lambda>lexeme. \<lparr>num_zero = (lexeme = [0x30]), num_finite = True, num_text = lexeme\<rparr>)\<rparr>"

section \<open>Running the command-line tool\<close>

text \<open>
  \<open>child_process.execFile\<close> is the environment of \<open>execute\<close>: a function from the
  invocation to what the callback receives. The error object carries \<open>message\<close>, \<open>killed\<close>
  and \<open>signal\<close> (\<open>undefined\<close> and \<open>null\<close> are \<open>False\<close> and \<open>None\<close>), and the output that
  was captured once it has been attached.
\<close>

record ExecFileOptions =
  cwd :: jstring
  opt_timeout :: nat
  maxBuffer :: nat

record Invocation =
  inv_file :: jstring
  args :: "jstring list"
  options :: ExecFileOptions
  stdin :: "jstring option"

record ExecFileError =
  message :: jstring
  killed :: bool
  signal :: "jstring option"
  err_stdout :: "jstring option"
  err_stderr :: "jstring option"

datatype ExecFileResult =
    Succeeded jstring jstring
  | Failed ExecFileError jstring jstring

text \<open>
  What \<open>execute\<close> can throw. Each adapter module declares a class \<open>TimeoutError\<close> of its
  own; the two classes are different objects, so a value remembers which one made it.
\<close>

datatype Thrown =
    ClaudeTimeoutError jstring
  | GeminiTimeoutError jstring
  | OtherError ExecFileError

text \<open>
  \<open>ClaudeCodeAdapter.execute\<close>. The writes to the console under \<open>debug\<close> do not enter the
  result and are left out. The callback attaches the captured standard error to the error
  object before the promise is rejected.
\<close>

record ClaudeCodeAdapter =
  runtimeDir :: jstring
  timeout :: nat
  debug :: bool

text \<open>The call \<open>execFileCb('claude', [...], commonOpts, callback)\<close> with the prompt on standard input.\<close>

definition claude_invocation :: "ClaudeCodeAdapter \<Rightarrow> Message list \<Rightarrow> Invocation" where
  "claude_invocation this messages =
     (let command = buildClaudeCodeCommand messages;
          commonOpts = \<lparr>cwd = runtimeDir this, opt_timeout = timeout this,
                        maxBuffer = 10 * 1024 * 1024\<rparr>
      in \<lparr>inv_file = js ''claude'',
          args = [js ''--system-prompt'', systemPrompt command, js ''-p''],
          options = commonOpts,
          stdin = Some (userPrompt command)\<rparr>)"

definition claude_execute ::
  "ClaudeCodeAdapter \<Rightarrow> (jstring \<Rightarrow> jstring) \<Rightarrow> (Invocation \<Rightarrow> ExecFileResult)
     \<Rightarrow> Message list \<Rightarrow> Thrown + jstring" where
  "claude_execute this strip execFile messages =
     (case execFile (claude_invocation this messages) of
        Succeeded stdout stderr \<Rightarrow> Inr (cleanOutput strip stdout)
      | Failed err stdout stderr \<Rightarrow>
          (let error = err\<lparr>err_stderr := Some stderr\<rparr>
           in if killed error \<and> signal error = Some (js ''SIGTERM'')
              then Inl (ClaudeTimeoutError (js ''Claude Code execution timed out''))
              else Inl (OtherError error)))"

text \<open>
  \<open>GeminiCLIAdapter.execute\<close>. The promisified \<open>execFile\<close> rejects with the error object,
  to which it has attached both captured streams.
\<close>

record GeminiCLIAdapter =
  g_runtimeDir :: jstring
  g_timeout :: nat
  g_debug :: bool
  g_model :: jstring

text \<open>The call \<open>execFile('gemini', args, commonOpts)\<close>.\<close>

definition gemini_invocation :: "GeminiCLIAdapter \<Rightarrow> Message list \<Rightarrow> Invocation" where
  "gemini_invocation this messages =
     (let prompt = buildGeminiPrompt messages;
          commonOpts = \<lparr>cwd = g_runtimeDir this, opt_timeout = g_timeout this,
                        maxBuffer = 10 * 1024 * 1024\<rparr>;
          args = [js ''-p'', prompt];
          args = (if g_model this \<noteq> [] then [js ''-m'', g_model this] @ args else args);
          args = args @ [js ''--output-format'', js ''json'']
      in \<lparr>inv_file = js ''gemini'', args = args, options = commonOpts, stdin = None\<rparr>)"

definition gemini_execute ::
  "GeminiCLIAdapter \<Rightarrow> host \<Rightarrow> (Invocation \<Rightarrow> ExecFileResult)
     \<Rightarrow> Message list \<Rightarrow> Thrown + json" where
  "gemini_execute this h execFile messages =
     (case execFile (gemini_invocation this messages) of
        Succeeded stdout stderr \<Rightarrow> Inr (extractResponse h stdout)
      | Failed err stdout stderr \<Rightarrow>
          (let error = err\<lparr>err_stdout := Some stdout, err_stderr := Some stderr\<rparr>
           in if killed error \<and> signal error = Some (js ''SIGTERM'')
              then Inl (GeminiTimeoutError (js ''Gemini CLI execution timed out''))
              else Inl (OtherError error)))"

section \<open>The factory\<close>

text \<open>
  \<open>interface AdapterConfig\<close> of the module \<open>types\<close>, with its five fields. The declared
  type of the kind is \<open>'claude-code' | 'codex' | 'gemini-cli'\<close>; \<open>loadConfig\<close> casts
  whatever string the environment holds to it, so the kind is a string.
  \<open>AdapterFactory.create\<close> throws an \<open>Error\<close> with a message or returns the adapter; the
  constructor of \<open>ClaudeCodeAdapter\<close> takes three arguments and ignores the fourth.
\<close>

record AdapterConfig =
  cfg_type :: jstring
  cfg_runtimeDir :: jstring
  cfg_timeout :: nat
  cfg_debug :: bool
  cfg_model :: "jstring option"

definition create :: "AdapterConfig \<Rightarrow> jstring + ClaudeCodeAdapter" where
  "create config =
     (if cfg_type config = js ''claude-code''
      then Inr \<lparr>runtimeDir = cfg_runtimeDir config, timeout = cfg_timeout config,
                debug = cfg_debug config\<rparr>
      else if cfg_type config = js ''codex'' then Inl (js ''Codex adapter not yet implemented'')
      else if cfg_type config = js ''gemini-cli''
      then Inl (js ''Gemini CLI adapter not yet implemented'')
      else Inl (js ''Unknown adapter type: '' @ cfg_type config))"

section \<open>The HTTP layer\<close>

text \<open>
  The handler of \<open>POST /v1/chat/completions\<close> in \<open>createServer\<close>. The adapter is the
  abstract class \<open>CLIAdapter\<close>: \<open>execute\<close> resolves to a string or rejects, \<open>getModelName\<close>
  is a constant. The generated identifier and the clock are inputs. The only class the
  handler tests a thrown value against is the \<open>TimeoutError\<close> that the module imports from
  \<open>./adapters/claude_code\<close>.
\<close>

record CLIAdapter =
  execute :: "Message list \<Rightarrow> Thrown + jstring"
  getModelName :: jstring

datatype MessagesField =
    MessagesMissing
  | MessagesNotArray
  | MessagesArray "Message list"

record ChatCompletionRequest =
  req_messages :: MessagesField
  req_model :: "jstring option"

record Usage =
  prompt_tokens :: int
  completion_tokens :: int
  total_tokens :: int

record ChatCompletionResponse =
  resp_id :: jstring
  resp_created :: nat
  resp_model :: jstring
  resp_content :: jstring
  resp_usage :: Usage

datatype ResponseBody =
    ErrorResponse jstring jstring jstring
  | Completion ChatCompletionResponse

record HttpResponse =
  status :: nat
  body :: ResponseBody

text \<open>\<open>Math.ceil(text.length / 4)\<close>: the quotient of a length by 4 is exact in a double.\<close>

definition estimateTokens :: "jstring \<Rightarrow> int" where
  "estimateTokens text = \<lceil>real (length text) / 4\<rceil>"

definition thrownMessage :: "Thrown \<Rightarrow> jstring" where
  "thrownMessage error =
     (case error of
        ClaudeTimeoutError m \<Rightarrow> m
      | GeminiTimeoutError m \<Rightarrow> m
      | OtherError e \<Rightarrow> message e)"

text \<open>\<open>error instanceof TimeoutError\<close>, with the class of the module \<open>claude_code\<close>.\<close>

definition instanceofTimeoutError :: "Thrown \<Rightarrow> bool" where
  "instanceofTimeoutError error = (case error of ClaudeTimeoutError m \<Rightarrow> True | _ \<Rightarrow> False)"

definition chatCompletions ::
  "CLIAdapter \<Rightarrow> jstring \<Rightarrow> nat \<Rightarrow> ChatCompletionRequest \<Rightarrow> HttpResponse" where
  "chatCompletions adapter generatedId now request =
     (case req_messages request of
        MessagesMissing \<Rightarrow>
          \<lparr>status = 400,
           body = ErrorResponse (js ''Invalid request: messages array is required'')
                    (js ''invalid_request_error'') (js ''invalid_request'')\<rparr>
      | MessagesNotArray \<Rightarrow>
          \<lparr>status = 400,
           body = ErrorResponse (js ''Invalid request: messages array is required'')
                    (js ''invalid_request_error'') (js ''invalid_request'')\<rparr>
      | MessagesArray messages \<Rightarrow>
          if length messages = 0 then
            \<lparr>status = 400,
             body = ErrorResponse (js ''Invalid request: messages array cannot be empty'')
                      (js ''invalid_request_error'') (js ''invalid_request'')\<rparr>
          else
            (case execute adapter messages of
               Inr content' \<Rightarrow>
                 \<lparr>status = 200,
                  body = Completion
                    \<lparr>resp_id = generatedId,
                     resp_created = now div 1000,
                     resp_model =
                       (case req_model request of
                          None \<Rightarrow> getModelName adapter
                        | Some m \<Rightarrow> if m \<noteq> [] then m else getModelName adapter),
                     resp_content = content',
                     resp_usage =
                       \<lparr>prompt_tokens =
                          estimateTokens (JSON_stringify 0 (JArr (map message_json messages))),
                        completion_tokens = estimateTokens content',
                        total_tokens =
                          estimateTokens
                            (JSON_stringify 0 (JArr (map message_json messages)) @ content')\<rparr>\<rparr>\<rparr>
             | Inl error \<Rightarrow>
                 if instanceofTimeoutError error then
                   \<lparr>status = 504,
                    body = ErrorResponse (thrownMessage error) (js ''timeout_error'')
                             (js ''timeout'')\<rparr>
                 else
                   \<lparr>status = 500,
                    body = ErrorResponse
                             (if thrownMessage error \<noteq> [] then thrownMessage error
                              else js ''Internal server error'')
                             (js ''internal_error'') (js ''internal_error'')\<rparr>))"

text \<open>The usage block of a response, when it has one.\<close>

definition usage_of :: "HttpResponse \<Rightarrow> Usage option" where
  "usage_of response =
     (case body response of Completion c \<Rightarrow> Some (resp_usage c) | ErrorResponse m t c \<Rightarrow> None)"

section \<open>Properties of the prompt builders\<close>

lemma js_Nil [simp]: "js [] = []"
  by (simp add: js_def)

subsection \<open>A quoted string is read back by \<open>JSON.parse\<close>\<close>

text \<open>The four hexadecimal digits of a \<open>\u\<close> escape give the code unit back.\<close>

lemma hexValue_hexDigit: "k < 16 \<Longrightarrow> hexValue (hexDigit k) = Some k"
proof -
  assume "k < 16"
  then have "k = 0 \<or> k = 1 \<or> k = 2 \<or> k = 3 \<or> k = 4 \<or> k = 5 \<or> k = 6 \<or> k = 7 \<or> k = 8
      \<or> k = 9 \<or> k = 10 \<or> k = 11 \<or> k = 12 \<or> k = 13 \<or> k = 14 \<or> k = 15"
    by arith
  then show ?thesis
    by (elim disjE) (simp_all add: hexDigit_def hexValue_def)
qed

lemma hex_digits_value:
  fixes u :: nat
  assumes "u < 65536"
  shows "4096 * (u div 4096 mod 16) + 256 * (u div 256 mod 16) + 16 * (u div 16 mod 16)
           + u mod 16 = u"
proof -
  define a where "a = u div 16"
  define b where "b = u div 256"
  define d where "d = u div 4096"
  have 1: "u = 16 * a + u mod 16"
    by (simp add: a_def)
  have "a div 16 = b"
    by (simp add: a_def b_def div_mult2_eq)
  then have 2: "a = 16 * b + a mod 16"
    by (metis mult_div_mod_eq)
  have "b div 16 = d"
    by (simp add: b_def d_def div_mult2_eq)
  then have 3: "b = 16 * d + b mod 16"
    by (metis mult_div_mod_eq)
  have "d < 16"
    using assms by (simp add: d_def less_mult_imp_div_less)
  then have 4: "d mod 16 = d"
    by simp
  have "4096 * (d mod 16) + 256 * (b mod 16) + 16 * (a mod 16) + u mod 16 = u"
    using 1 2 3 unfolding 4 by linarith
  then show ?thesis
    by (simp only: a_def b_def d_def)
qed

lemma hex4_UnicodeEscape:
  assumes "UnicodeEscape c = [0x5C, 0x75, h1, h2, h3, h4]"
  shows "hex4 h1 h2 h3 h4 = Some c"
proof -
  have u: "unat c < 65536"
    using unsigned_less [of c] by simp
  have h: "h1 = hexDigit (unat c div 4096 mod 16)" "h2 = hexDigit (unat c div 256 mod 16)"
    "h3 = hexDigit (unat c div 16 mod 16)" "h4 = hexDigit (unat c mod 16)"
    using assms by (simp_all add: UnicodeEscape_def)
  have "hex4 h1 h2 h3 h4 =
      Some (of_nat (4096 * (unat c div 4096 mod 16) + 256 * (unat c div 256 mod 16)
                      + 16 * (unat c div 16 mod 16) + unat c mod 16))"
    unfolding h hex4_def by (simp only: hexValue_hexDigit mod_less_divisor zero_less_numeral
        prod.case option.case)
  also have "\<dots> = Some (of_nat (unat c))"
    by (simp only: hex_digits_value [OF u])
  finally show ?thesis
    by simp
qed

text \<open>
  The string lexer of \<open>JSON.parse\<close> reads what \<open>QuoteJSONString\<close> wrote for a code unit as
  that code unit, and so the whole quoted string as the string.
\<close>

lemma lexString_quoteUnit:
  "lexString acc n (quoteUnit c @ tail) = lexString (c # acc) (n + length (quoteUnit c)) tail"
proof (cases "quoteUnit c = UnicodeEscape c")
  case True
  obtain h1 h2 h3 h4 where e: "UnicodeEscape c = [0x5C, 0x75, h1, h2, h3, h4]"
    by (simp add: UnicodeEscape_def)
  have l: "n + length [0x5C, 0x75, h1, h2, h3, h4] = n + 6"
    by simp
  show ?thesis
    unfolding True e l using hex4_UnicodeEscape [OF e] by simp
next
  case False
  then show ?thesis
    by (auto simp add: quoteUnit_def unescape_def split: if_splits)
qed

lemma lexString_surrogate:
  "isLeadingSurrogate c \<or> isTrailingSurrogate c \<Longrightarrow>
     lexString acc n (c # tail) = lexString (c # acc) (Suc n) tail"
proof -
  assume "isLeadingSurrogate c \<or> isTrailingSurrogate c"
  then have "0xD800 \<le> c"
    by (auto simp add: isLeadingSurrogate_def isTrailingSurrogate_def word_le_nat_alt)
  then have "\<not> c < 0x20" and "c \<noteq> 0x22" and "c \<noteq> 0x5C"
    by (auto simp add: word_le_nat_alt word_less_nat_alt)
  then show ?thesis
    by simp
qed

lemma lexString_quoteUnits:
  "lexString acc n (quoteUnits s @ 0x22 # rest) =
     Some (rev acc @ s, n + length (quoteUnits s) + 1)"
proof (induction s arbitrary: acc n rule: quoteUnits.induct)
  case 1
  show ?case by simp
next
  case (2 c)
  show ?case
    by (simp add: lexString_quoteUnit)
next
  case (3 c d cs)
  show ?case
  proof (cases "isLeadingSurrogate c \<and> isTrailingSurrogate d")
    case True
    then have q: "quoteUnits (c # d # cs) = c # d # quoteUnits cs"
      by simp
    have "lexString acc n (c # d # quoteUnits cs @ 0x22 # rest) =
        lexString (d # c # acc) (Suc (Suc n)) (quoteUnits cs @ 0x22 # rest)"
      using True by (simp add: lexString_surrogate del: lexString.simps)
    then show ?thesis
      unfolding q using 3(1) [OF True, of "d # c # acc" "Suc (Suc n)"]
      by (simp del: lexString.simps)
  next
    case False
    then have q: "quoteUnits (c # d # cs) = quoteUnit c @ quoteUnits (d # cs)"
      by (simp only: quoteUnits.simps if_False)
    show ?thesis
      unfolding q using 3(2) [OF False, of "c # acc" "n + length (quoteUnit c)"]
      by (simp add: lexString_quoteUnit del: lexString.simps quoteUnits.simps)
  qed
qed

lemma JSON_parse_QuoteJSONString: "JSON_parse num (QuoteJSONString s) = Some (JStr s)"
proof -
  have "lexString [] 0 (quoteUnits s @ [0x22]) = Some (s, length (quoteUnits s) + 1)"
    using lexString_quoteUnits [of "[]" 0 s "[]"] by simp
  then have "tokenize (QuoteJSONString s) = Some [TString s]"
    by (simp add: QuoteJSONString_def isJSONWhiteSpace_def)
  then show ?thesis
    by (simp add: JSON_parse_def)
qed

subsection \<open>The history block\<close>

lemma QuoteJSONString_role: \<open>QuoteJSONString (js ''role'') = js ''"role"''\<close>
  by (simp add: QuoteJSONString_def quoteUnit_def isLeadingSurrogate_def
        isTrailingSurrogate_def js_def)

lemma QuoteJSONString_content: \<open>QuoteJSONString (js ''content'') = js ''"content"''\<close>
  by (simp add: QuoteJSONString_def quoteUnit_def isLeadingSurrogate_def
        isTrailingSurrogate_def js_def)

text \<open>
  One message inside the history array, at indentation level one: its own properties in
  their order, one per line.
\<close>

lemma serialize_message:
  \<open>SerializeJSONProperty [0x20, 0x20] [0x20, 0x20] (message_json m) =
     (if properties m = [] then js ''{}''
      else js ''{\<newline>    ''
        @ join (js '',\<newline>    '')
            (map (\<lambda>p. case p of
                     RoleProperty \<Rightarrow> js ''"role": '' @ QuoteJSONString (role m)
                   | ContentProperty \<Rightarrow> js ''"content": '' @ QuoteJSONString (content m)
                   | OtherProperty key v \<Rightarrow>
                       QuoteJSONString key @ js '': ''
                       @ SerializeJSONProperty (js ''  '') (js ''    '') v)
               (properties m))
        @ js ''\<newline>  }'')\<close>
proof -
  have member: \<open>(case (case p of
                    RoleProperty \<Rightarrow> (js ''role'', JStr (role m))
                  | ContentProperty \<Rightarrow> (js ''content'', JStr (content m))
                  | OtherProperty key v \<Rightarrow> (key, v)) of
          (k, v) \<Rightarrow> QuoteJSONString k @ js '':'' @ js '' ''
                      @ SerializeJSONProperty [0x20, 0x20] [0x20, 0x20, 0x20, 0x20] v) =
        (case p of
           RoleProperty \<Rightarrow> js ''"role": '' @ QuoteJSONString (role m)
         | ContentProperty \<Rightarrow> js ''"content": '' @ QuoteJSONString (content m)
         | OtherProperty key v \<Rightarrow>
             QuoteJSONString key @ js '': ''
             @ SerializeJSONProperty (js ''  '') (js ''    '') v)\<close> for p
    by (cases p) (simp_all add: QuoteJSONString_role QuoteJSONString_content, simp_all add: js_def)
  show ?thesis
    by (simp add: message_json_def Let_def comp_def member) (simp add: js_def)
qed

text \<open>The layout of \<open>JSON.stringify(history, null, 2)\<close> on a non-empty list of messages.\<close>

lemma stringify_history:
  assumes "history \<noteq> []"
  shows \<open>JSON_stringify 2 (JArr (map message_json history)) =
     js ''[\<newline>  '' @
     join (js '',\<newline>  '')
       (map (\<lambda>m. SerializeJSONProperty [0x20, 0x20] [0x20, 0x20] (message_json m)) history)
     @ js ''\<newline>]''\<close>
proof -
  have gap: "replicate (min 10 2) (0x20 :: 16 word) = [0x20, 0x20]"
    by (simp add: numeral_2_eq_2)
  have "JSON_stringify 2 (JArr (map message_json history)) =
     js ''[\<newline>'' @ [0x20, 0x20] @ join (js '',\<newline>'' @ [0x20, 0x20])
        (map (\<lambda>m. SerializeJSONProperty [0x20, 0x20] [0x20, 0x20] (message_json m)) history)
      @ js ''\<newline>'' @ js '']''"
    unfolding JSON_stringify_def gap using assms by (simp add: comp_def Let_def)
  then show ?thesis
    by (simp add: js_def)
qed

text \<open>
  Claim C1 fails as stated: the order of the fields is the order of the properties of the
  object that was received, not \<open>role\<close> then \<open>content\<close>. For a first message received
  as \<open>{"content": "a", "role": "user"}\<close> the history block has \<open>content\<close> first.
\<close>

theorem C1_counterexample:
  \<open>userPrompt (buildClaudeCodeCommand
       [\<lparr>role = js ''user'', content = js ''a'', properties = [ContentProperty, RoleProperty]\<rparr>,
        \<lparr>role = js ''user'', content = js ''b'', properties = [RoleProperty, ContentProperty]\<rparr>]) =
     js (''Conversation history:\<newline>''
       @ ''[\<newline>''
       @ ''  {\<newline>''
       @ ''    "content": "a",\<newline>''
       @ ''    "role": "user"\<newline>''
       @ ''  }\<newline>''
       @ '']\<newline>''
       @ ''\<newline>''
       @ ''Current user message: b'')
   \<and> userPrompt (buildClaudeCodeCommand
       [\<lparr>role = js ''user'', content = js ''a'', properties = [ContentProperty, RoleProperty]\<rparr>,
        \<lparr>role = js ''user'', content = js ''b'', properties = [RoleProperty, ContentProperty]\<rparr>]) \<noteq>
     js (''Conversation history:\<newline>''
       @ ''[\<newline>''
       @ ''  {\<newline>''
       @ ''    "role": "user",\<newline>''
       @ ''    "content": "a"\<newline>''
       @ ''  }\<newline>''
       @ '']\<newline>''
       @ ''\<newline>''
       @ ''Current user message: b'')\<close>
proof -
  have gap: "replicate (min 10 2) (0x20 :: 16 word) = [0x20, 0x20]"
    by (simp add: numeral_2_eq_2)
  have gap': "replicate 2 (0x20 :: 16 word) = [0x20, 0x20]"
    by (simp add: numeral_2_eq_2)
  show ?thesis
    by (simp add: buildClaudeCodeCommand_def JSON_stringify_def gap gap' message_json_def
          QuoteJSONString_def quoteUnit_def isLeadingSurrogate_def isTrailingSurrogate_def
          js_def Let_def)
qed

text \<open>
  Claim C1, amended. When the messages that are not of role \<open>system\<close> are \<open>N > 1\<close>, the user
  payload of both builders is the label \<open>Conversation history:\<close> and a line break, the
  first \<open>N - 1\<close> of these messages as a JSON array indented by two spaces, a blank line,
  and \<open>Current user message: \<close> followed by the content of the \<open>N\<close>-th message as it is.
  In the array the messages stand in the order of the request, each as the object that
  was received: its own properties in their own order, one per line, strings quoted as
  JSON, and \<open>{}\<close> for an object without properties; a further property of the object
  is written too. An object whose properties are \<open>role\<close> and \<open>content\<close> in this order
  is written with \<open>role\<close> first and \<open>content\<close> second. Every quoted string is a JSON
  text that \<open>JSON.parse\<close> reads back as the string it was made from. The Claude builder
  returns the payload; the Gemini builder puts the system section in front of it.
\<close>

theorem C1_history_block_then_current_message:
  assumes "1 < length (filter (\<lambda>m. role m \<noteq> js ''system'') messages)"
  shows \<open>let turns = filter (\<lambda>m. role m \<noteq> js ''system'') messages;
             N = length turns;
             member = (\<lambda>m p. case p of
                         RoleProperty \<Rightarrow> js ''"role": '' @ QuoteJSONString (role m)
                       | ContentProperty \<Rightarrow> js ''"content": '' @ QuoteJSONString (content m)
                       | OtherProperty key v \<Rightarrow>
                           QuoteJSONString key @ js '': ''
                           @ SerializeJSONProperty (js ''  '') (js ''    '') v);
             object = (\<lambda>m. if properties m = [] then js ''{}''
                            else js ''{\<newline>    ''
                              @ join (js '',\<newline>    '') (map (member m) (properties m))
                              @ js ''\<newline>  }'');
             payload =
               js ''Conversation history:\<newline>''
               @ js ''[\<newline>  ''
               @ join (js '',\<newline>  '') (map object (take (N - 1) turns))
               @ js ''\<newline>]''
               @ js ''\<newline>\<newline>''
               @ js ''Current user message: '' @ content (turns ! (N - 1))
         in userPrompt (buildClaudeCodeCommand messages) = payload
            \<and> buildGeminiPrompt messages =
                js ''System instructions:\<newline>''
                @ (case find (\<lambda>m. role m = js ''system'') messages of
                     None \<Rightarrow> gemini_CONVERSATION_SYSTEM_PROMPT
                   | Some m \<Rightarrow>
                       if content m = [] then gemini_CONVERSATION_SYSTEM_PROMPT
                       else content m @ js ''\<newline>\<newline>''
                              @ gemini_CONVERSATION_SYSTEM_PROMPT)
                @ js ''\<newline>\<newline>'' @ payload
            \<and> (properties m = [RoleProperty, ContentProperty] \<longrightarrow>
                 object m = js ''{\<newline>    "role": '' @ QuoteJSONString (role m)
                            @ js '',\<newline>    "content": '' @ QuoteJSONString (content m)
                            @ js ''\<newline>  }'')
            \<and> JSON_parse num (QuoteJSONString s) = Some (JStr s)\<close>
proof -
  let ?turns = "filter (\<lambda>m. role m \<noteq> js ''system'') messages"
  have ne: "take (length ?turns - 1) ?turns \<noteq> []" and ne': "?turns \<noteq> []"
    using assms by auto
  note h = stringify_history [OF ne, unfolded One_nat_def serialize_message]
  have builders: \<open>userPrompt (buildClaudeCodeCommand messages) =
        js ''Conversation history:\<newline>''
        @ JSON_stringify 2 (JArr (map message_json (take (length ?turns - Suc 0) ?turns)))
        @ js ''\<newline>\<newline>''
        @ js ''Current user message: '' @ content (?turns ! (length ?turns - Suc 0))\<close>
    \<open>buildGeminiPrompt messages =
        js ''System instructions:\<newline>''
        @ (case find (\<lambda>m. role m = js ''system'') messages of
             None \<Rightarrow> gemini_CONVERSATION_SYSTEM_PROMPT
           | Some m \<Rightarrow>
               if content m = [] then gemini_CONVERSATION_SYSTEM_PROMPT
               else content m @ js ''\<newline>\<newline>'' @ gemini_CONVERSATION_SYSTEM_PROMPT)
        @ js ''\<newline>\<newline>''
        @ js ''Conversation history:\<newline>''
        @ JSON_stringify 2 (JArr (map message_json (take (length ?turns - Suc 0) ?turns)))
        @ js ''\<newline>\<newline>''
        @ js ''Current user message: '' @ content (?turns ! (length ?turns - Suc 0))\<close>
    using assms ne'
    by (simp_all add: buildClaudeCodeCommand_def buildGeminiPrompt_def Let_def
          split: option.splits)
  have ordered: \<open>js ''{\<newline>    '' @ js ''"role": '' @ r @ js '',\<newline>    '' @ js ''"content": '' @ c
        = js ''{\<newline>    "role": '' @ r @ js '',\<newline>    "content": '' @ c\<close> for r c :: jstring
    by (simp add: js_def)
  show ?thesis
    unfolding Let_def builders h
    by (simp add: JSON_parse_QuoteJSONString ordered)
qed

theorem C1_witness:
  \<open>1 < length (filter (\<lambda>m. role m \<noteq> js ''system'')
         [\<lparr>role = js ''system'', content = js ''Be brief'',
           properties = [RoleProperty, ContentProperty]\<rparr>,
          \<lparr>role = js ''user'',
           content = js ''say "hi"'' @ [0x5C] @ js ''n'' @ [0x0A, 0x01, 0xD800, 0xD83D, 0xDE00],
           properties = [RoleProperty, ContentProperty]\<rparr>,
          \<lparr>role = js ''assistant'', content = js ''ok'',
           properties = [ContentProperty, RoleProperty,
                         OtherProperty (js ''name'') (JStr (js ''bot''))]\<rparr>,
          \<lparr>role = js ''user'', content = js ''What?'',
           properties = [RoleProperty, ContentProperty]\<rparr>])
    \<and> userPrompt (buildClaudeCodeCommand
         [\<lparr>role = js ''system'', content = js ''Be brief'',
           properties = [RoleProperty, ContentProperty]\<rparr>,
          \<lparr>role = js ''user'',
           content = js ''say "hi"'' @ [0x5C] @ js ''n'' @ [0x0A, 0x01, 0xD800, 0xD83D, 0xDE00],
           properties = [RoleProperty, ContentProperty]\<rparr>,
          \<lparr>role = js ''assistant'', content = js ''ok'',
           properties = [ContentProperty, RoleProperty,
                         OtherProperty (js ''name'') (JStr (js ''bot''))]\<rparr>,
          \<lparr>role = js ''user'', content = js ''What?'',
           properties = [RoleProperty, ContentProperty]\<rparr>]) =
       js (''Conversation history:\<newline>''
         @ ''[\<newline>''
         @ ''  {\<newline>''
         @ ''    "role": "user",\<newline>''
         @ ''    "content": "say '') @ [0x5C] @ js ''"hi'' @ [0x5C] @ js ''"'' @ [0x5C, 0x5C]
         @ js ''n'' @ [0x5C] @ js ''n'' @ [0x5C] @ js ''u0001'' @ [0x5C] @ js ''ud800''
         @ [0xD83D, 0xDE00] @
       js (''"\<newline>''
         @ ''  },\<newline>''
         @ ''  {\<newline>''
         @ ''    "content": "ok",\<newline>''
         @ ''    "role": "assistant",\<newline>''
         @ ''    "name": "bot"\<newline>''
         @ ''  }\<newline>''
         @ '']\<newline>''
         @ ''\<newline>''
         @ ''Current user message: What?'')
    \<and> properties \<lparr>role = js ''user'', content = js ''What?'',
                    properties = [RoleProperty, ContentProperty]\<rparr> =
          [RoleProperty, ContentProperty]
    \<and> QuoteJSONString (js ''say "hi"'' @ [0x5C] @ js ''n'' @ [0x0A, 0x01, 0xD800, 0xD83D, 0xDE00]) =
         js ''"say '' @ [0x5C] @ js ''"hi'' @ [0x5C] @ js ''"'' @ [0x5C, 0x5C]
         @ js ''n'' @ [0x5C] @ js ''n'' @ [0x5C] @ js ''u0001'' @ [0x5C] @ js ''ud800''
         @ [0xD83D, 0xDE00] @ js ''"''
    \<and> JSON_parse (numberOf test_host)
         (js ''"say '' @ [0x5C] @ js ''"hi'' @ [0x5C] @ js ''"'' @ [0x5C, 0x5C]
          @ js ''n'' @ [0x5C] @ js ''n'' @ [0x5C] @ js ''u0001'' @ [0x5C] @ js ''ud800''
          @ [0xD83D, 0xDE00] @ js ''"'') =
         Some (JStr (js ''say "hi"'' @ [0x5C] @ js ''n'' @ [0x0A, 0x01, 0xD800, 0xD83D, 0xDE00]))\<close>
  using C1_history_block_then_current_message
    [where messages =
        \<open>[\<lparr>role = js ''system'', content = js ''Be brief'',
           properties = [RoleProperty, ContentProperty]\<rparr>,
          \<lparr>role = js ''user'',
           content = js ''say "hi"'' @ [0x5C] @ js ''n'' @ [0x0A, 0x01, 0xD800, 0xD83D, 0xDE00],
           properties = [RoleProperty, ContentProperty]\<rparr>,
          \<lparr>role = js ''assistant'', content = js ''ok'',
           properties = [ContentProperty, RoleProperty,
                         OtherProperty (js ''name'') (JStr (js ''bot''))]\<rparr>,
          \<lparr>role = js ''user'', content = js ''What?'',
           properties = [RoleProperty, ContentProperty]\<rparr>]\<close>
      and m = \<open>\<lparr>role = js ''user'', content = js ''What?'',
                properties = [RoleProperty, ContentProperty]\<rparr>\<close>
      and s = \<open>js ''say "hi"'' @ [0x5C] @ js ''n'' @ [0x0A, 0x01, 0xD800, 0xD83D, 0xDE00]\<close>
      and num = "numberOf test_host"]
  by (simp add: js_def Let_def QuoteJSONString_def quoteUnit_def UnicodeEscape_def hexDigit_def
        isLeadingSurrogate_def isTrailingSurrogate_def)

subsection \<open>The system prompt, the single turn and requests without a turn\<close>

text \<open>
  Claim C6. The effective system prompt is the content of the first message of role
  \<open>system\<close>, a blank line and the fixed instruction when that content is not empty, and
  the fixed instruction alone when there is no such message or its content is empty.
  The Claude builder returns it as \<open>systemPrompt\<close>; the Gemini builder, with its own
  instruction, puts it between \<open>System instructions:\<close> and the user payload, which is
  the payload the Claude builder returns.
\<close>

theorem C6_effective_system_prompt:
  \<open>systemPrompt (buildClaudeCodeCommand messages) =
     (case find (\<lambda>m. role m = js ''system'') messages of
        None \<Rightarrow> claude_CONVERSATION_SYSTEM_PROMPT
      | Some m \<Rightarrow>
          if content m = [] then claude_CONVERSATION_SYSTEM_PROMPT
          else content m @ js ''\<newline>\<newline>'' @ claude_CONVERSATION_SYSTEM_PROMPT)
   \<and> buildGeminiPrompt messages =
     js ''System instructions:\<newline>''
     @ (case find (\<lambda>m. role m = js ''system'') messages of
          None \<Rightarrow> gemini_CONVERSATION_SYSTEM_PROMPT
        | Some m \<Rightarrow>
            if content m = [] then gemini_CONVERSATION_SYSTEM_PROMPT
            else content m @ js ''\<newline>\<newline>'' @ gemini_CONVERSATION_SYSTEM_PROMPT)
     @ js ''\<newline>\<newline>''
     @ userPrompt (buildClaudeCodeCommand messages)\<close>
  by (simp add: buildClaudeCodeCommand_def buildGeminiPrompt_def Let_def
        split: option.splits list.splits)

theorem C6_witness:
  \<open>systemPrompt (buildClaudeCodeCommand
       [\<lparr>role = js ''user'', content = js ''Hello!'', properties = [RoleProperty, ContentProperty]\<rparr>,
        \<lparr>role = js ''system'', content = js ''Be brief.'', properties = [RoleProperty, ContentProperty]\<rparr>,
        \<lparr>role = js ''system'', content = js ''Be long.'', properties = [RoleProperty, ContentProperty]\<rparr>]) =
     js ''Be brief.\<newline>\<newline>'' @ claude_CONVERSATION_SYSTEM_PROMPT
   \<and> systemPrompt (buildClaudeCodeCommand
       [\<lparr>role = js ''system'', content = js '''', properties = [RoleProperty, ContentProperty]\<rparr>,
        \<lparr>role = js ''system'', content = js ''Be long.'', properties = [RoleProperty, ContentProperty]\<rparr>,
        \<lparr>role = js ''user'', content = js ''Hello!'', properties = [RoleProperty, ContentProperty]\<rparr>]) =
     claude_CONVERSATION_SYSTEM_PROMPT
   \<and> systemPrompt (buildClaudeCodeCommand [\<lparr>role = js ''user'', content = js ''Hello!'', properties = [RoleProperty, ContentProperty]\<rparr>]) =
     claude_CONVERSATION_SYSTEM_PROMPT\<close>
  using C6_effective_system_prompt
      [of "[\<lparr>role = js ''user'', content = js ''Hello!'', properties = [RoleProperty, ContentProperty]\<rparr>,
            \<lparr>role = js ''system'', content = js ''Be brief.'', properties = [RoleProperty, ContentProperty]\<rparr>,
            \<lparr>role = js ''system'', content = js ''Be long.'', properties = [RoleProperty, ContentProperty]\<rparr>]"]
    C6_effective_system_prompt
      [of "[\<lparr>role = js ''system'', content = js '''', properties = [RoleProperty, ContentProperty]\<rparr>,
            \<lparr>role = js ''system'', content = js ''Be long.'', properties = [RoleProperty, ContentProperty]\<rparr>,
            \<lparr>role = js ''user'', content = js ''Hello!'', properties = [RoleProperty, ContentProperty]\<rparr>]"]
    C6_effective_system_prompt [of "[\<lparr>role = js ''user'', content = js ''Hello!'', properties = [RoleProperty, ContentProperty]\<rparr>]"]
  by (simp add: js_def)

text \<open>
  The label \<open>Conversation history:\<close> cannot begin inside \<open>Current user message: \<close>: an
  occurrence of it in the current-message line lies in the content.
\<close>

lemma label_inside_content:
  \<open>sublist (js ''Conversation history:'') (js ''Current user message: '' @ c)
     \<longleftrightarrow> sublist (js ''Conversation history:'') c\<close>
proof
  assume \<open>sublist (js ''Conversation history:'') c\<close>
  then show \<open>sublist (js ''Conversation history:'') (js ''Current user message: '' @ c)\<close>
    by (auto simp add: sublist_def) (metis append.assoc)
next
  let ?l = \<open>js ''Conversation history:''\<close> and ?p = \<open>js ''Current user message: ''\<close>
  assume \<open>sublist ?l (?p @ c)\<close>
  then obtain ps ss where eq: "?p @ c = ps @ ?l @ ss"
    by (auto simp add: sublist_def)
  then consider us where "?p = ps @ us" "us @ c = ?l @ ss"
    | us where "?p @ us = ps" "c = us @ ?l @ ss"
    by (auto simp add: append_eq_append_conv2)
  then show \<open>sublist ?l c\<close>
  proof cases
    case 1
    show ?thesis
    proof (cases "us = []")
      case True
      with 1 show ?thesis by (auto simp add: sublist_def)
    next
      case False
      then have "hd us = 0x43"
        using 1(2) by (cases us) (auto simp add: js_def)
      have "ps = []"
      proof (rule ccontr)
        assume "ps \<noteq> []"
        then have "tl ?p = tl ps @ us"
          using 1(1) by (cases ps) auto
        then have "hd us \<in> set (tl ?p)"
          using False by (metis UnCI hd_in_set set_append)
        then show False
          unfolding \<open>hd us = 0x43\<close> by (simp add: js_def)
      qed
      then have "?p @ c = ?l @ ss"
        using eq by simp
      then show ?thesis
        by (simp add: js_def)
    qed
  next
    case 2
    then show ?thesis by (auto simp add: sublist_def)
  qed
qed

text \<open>
  Claim C7. When exactly one message is not of role \<open>system\<close>, the user payload is
  \<open>Current user message: \<close> followed by the content of that message and nothing else:
  there is no history block, and the text \<open>Conversation history:\<close> occurs in the payload
  only if the content of the message holds it. The Gemini prompt is the system section
  followed by this payload.
\<close>

theorem C7_single_turn_has_no_history_block:
  assumes "filter (\<lambda>m. role m \<noteq> js ''system'') messages = [turn]"
  shows \<open>userPrompt (buildClaudeCodeCommand messages) =
           js ''Current user message: '' @ content turn
         \<and> (sublist (js ''Conversation history:'') (userPrompt (buildClaudeCodeCommand messages))
              \<longleftrightarrow> sublist (js ''Conversation history:'') (content turn))
         \<and> buildGeminiPrompt messages =
           js ''System instructions:\<newline>''
           @ (case find (\<lambda>m. role m = js ''system'') messages of
                None \<Rightarrow> gemini_CONVERSATION_SYSTEM_PROMPT
              | Some m \<Rightarrow>
                  if content m = [] then gemini_CONVERSATION_SYSTEM_PROMPT
                  else content m @ js ''\<newline>\<newline>'' @ gemini_CONVERSATION_SYSTEM_PROMPT)
           @ js ''\<newline>\<newline>''
           @ js ''Current user message: '' @ content turn\<close>
proof -
  have payload: \<open>userPrompt (buildClaudeCodeCommand messages) =
           js ''Current user message: '' @ content turn\<close>
    using assms by (simp add: buildClaudeCodeCommand_def Let_def split: option.splits)
  show ?thesis
    unfolding payload label_inside_content
    using assms by (simp add: buildGeminiPrompt_def Let_def split: option.splits)
qed

theorem C7_witness:
  \<open>filter (\<lambda>m. role m \<noteq> js ''system'')
      [\<lparr>role = js ''system'', content = js ''Be brief.'', properties = [RoleProperty, ContentProperty]\<rparr>,
       \<lparr>role = js ''user'', content = js ''Hello!'', properties = [RoleProperty, ContentProperty]\<rparr>] =
     [\<lparr>role = js ''user'', content = js ''Hello!'', properties = [RoleProperty, ContentProperty]\<rparr>]
   \<and> userPrompt (buildClaudeCodeCommand
       [\<lparr>role = js ''system'', content = js ''Be brief.'', properties = [RoleProperty, ContentProperty]\<rparr>,
        \<lparr>role = js ''user'', content = js ''Hello!'', properties = [RoleProperty, ContentProperty]\<rparr>]) =
     js ''Current user message: Hello!''\<close>
  using C7_single_turn_has_no_history_block
    [of "[\<lparr>role = js ''system'', content = js ''Be brief.'', properties = [RoleProperty, ContentProperty]\<rparr>,
          \<lparr>role = js ''user'', content = js ''Hello!'', properties = [RoleProperty, ContentProperty]\<rparr>]"
        "\<lparr>role = js ''user'', content = js ''Hello!'', properties = [RoleProperty, ContentProperty]\<rparr>"]
  by (simp add: js_def)

text \<open>
  Claim C10. When every message is of role \<open>system\<close>, the builders return without a
  current-message line and without a history block: the user payload of the Claude
  builder is the empty string, and the Gemini prompt is the system section alone.
\<close>

theorem C10_only_system_messages:
  assumes "\<forall>m \<in> set messages. role m = js ''system''"
  shows \<open>userPrompt (buildClaudeCodeCommand messages) = js ''''
         \<and> buildGeminiPrompt messages =
           js ''System instructions:\<newline>''
           @ (case find (\<lambda>m. role m = js ''system'') messages of
                None \<Rightarrow> gemini_CONVERSATION_SYSTEM_PROMPT
              | Some m \<Rightarrow>
                  if content m = [] then gemini_CONVERSATION_SYSTEM_PROMPT
                  else content m @ js ''\<newline>\<newline>'' @ gemini_CONVERSATION_SYSTEM_PROMPT)
           @ js ''\<newline>\<newline>''\<close>
proof -
  have "filter (\<lambda>m. role m \<noteq> js ''system'') messages = []"
    using assms by (induction messages) auto
  then show ?thesis
    by (simp add: buildClaudeCodeCommand_def buildGeminiPrompt_def Let_def
          split: option.splits)
qed

theorem C10_witness:
  \<open>list_all (\<lambda>m. role m = js ''system'')
      [\<lparr>role = js ''system'', content = js ''Be brief.'', properties = [RoleProperty, ContentProperty]\<rparr>,
       \<lparr>role = js ''system'', content = js ''Be long.'', properties = [RoleProperty, ContentProperty]\<rparr>]
   \<and> userPrompt (buildClaudeCodeCommand
       [\<lparr>role = js ''system'', content = js ''Be brief.'', properties = [RoleProperty, ContentProperty]\<rparr>,
        \<lparr>role = js ''system'', content = js ''Be long.'', properties = [RoleProperty, ContentProperty]\<rparr>]) = []
   \<and> buildGeminiPrompt
       [\<lparr>role = js ''system'', content = js ''Be brief.'', properties = [RoleProperty, ContentProperty]\<rparr>,
        \<lparr>role = js ''system'', content = js ''Be long.'', properties = [RoleProperty, ContentProperty]\<rparr>] =
     js ''System instructions:\<newline>Be brief.\<newline>\<newline>'' @ gemini_CONVERSATION_SYSTEM_PROMPT
       @ js ''\<newline>\<newline>''\<close>
  using C10_only_system_messages
    [of "[\<lparr>role = js ''system'', content = js ''Be brief.'', properties = [RoleProperty, ContentProperty]\<rparr>,
          \<lparr>role = js ''system'', content = js ''Be long.'', properties = [RoleProperty, ContentProperty]\<rparr>]"]
  by (simp add: js_def)

section \<open>Properties of \<open>execute\<close>, the factory and the HTTP layer\<close>

text \<open>
  Claim C2. Whatever the messages and whatever output was captured, when
  \<open>execFile\<close> fails with an error marked \<open>killed\<close> whose signal is \<open>SIGTERM\<close>, \<open>execute\<close>
  throws the \<open>TimeoutError\<close> of its module with the message of its tool; on every other
  failure it throws the error object it received, whose message, \<open>killed\<close> flag and
  signal are unchanged (the captured output is attached to it).
\<close>

theorem C2_timeout_or_original_error:
  \<open>(execFile (claude_invocation claude messages) = Failed err out errout \<longrightarrow>
      claude_execute claude strip execFile messages =
        (if killed err \<and> signal err = Some (js ''SIGTERM'')
         then Inl (ClaudeTimeoutError (js ''Claude Code execution timed out''))
         else Inl (OtherError (err\<lparr>err_stderr := Some errout\<rparr>)))
      \<and> message (err\<lparr>err_stderr := Some errout\<rparr>) = message err)
   \<and> (execFile (gemini_invocation gemini messages) = Failed err out errout \<longrightarrow>
      gemini_execute gemini h execFile messages =
        (if killed err \<and> signal err = Some (js ''SIGTERM'')
         then Inl (GeminiTimeoutError (js ''Gemini CLI execution timed out''))
         else Inl (OtherError (err\<lparr>err_stdout := Some out, err_stderr := Some errout\<rparr>)))
      \<and> message (err\<lparr>err_stdout := Some out, err_stderr := Some errout\<rparr>) = message err)\<close>
  by (simp add: claude_execute_def gemini_execute_def Let_def)

theorem C2_witness:
  \<open>claude_execute \<lparr>runtimeDir = js ''/test/runtime'', timeout = 30000, debug = False\<rparr>
      stripAnsi_mock
      (\<lambda>inv. Failed \<lparr>message = js ''Timeout'', killed = True, signal = Some (js ''SIGTERM''),
                        err_stdout = None, err_stderr = None\<rparr>
                (js ''partial answer'') (js ''''))
      [\<lparr>role = js ''user'', content = js ''Hello!'', properties = [RoleProperty, ContentProperty]\<rparr>] =
     Inl (ClaudeTimeoutError (js ''Claude Code execution timed out''))
   \<and> gemini_execute
      \<lparr>g_runtimeDir = js ''/test/runtime'', g_timeout = 30000, g_debug = False,
       g_model = js ''gemini-2.5-flash''\<rparr>
      test_host
      (\<lambda>inv. Failed \<lparr>message = js ''Execution failed'', killed = False, signal = None,
                        err_stdout = None, err_stderr = None\<rparr>
                (js '''') (js ''boom''))
      [\<lparr>role = js ''user'', content = js ''Hello!'', properties = [RoleProperty, ContentProperty]\<rparr>] =
     Inl (OtherError \<lparr>message = js ''Execution failed'', killed = False, signal = None,
                       err_stdout = Some (js ''''), err_stderr = Some (js ''boom'')\<rparr>)\<close>
  using
    C2_timeout_or_original_error
      [of "\<lambda>inv. Failed \<lparr>message = js ''Timeout'', killed = True,
                              signal = Some (js ''SIGTERM''),
                              err_stdout = None, err_stderr = None\<rparr>
                      (js ''partial answer'') (js '''')"
          "\<lparr>runtimeDir = js ''/test/runtime'', timeout = 30000, debug = False\<rparr>"
          "[\<lparr>role = js ''user'', content = js ''Hello!'', properties = [RoleProperty, ContentProperty]\<rparr>]"
          "\<lparr>message = js ''Timeout'', killed = True, signal = Some (js ''SIGTERM''),
            err_stdout = None, err_stderr = None\<rparr>"
          "js ''partial answer''" "js ''''" stripAnsi_mock]
    C2_timeout_or_original_error
      [of "\<lambda>inv. Failed \<lparr>message = js ''Execution failed'', killed = False, signal = None,
                              err_stdout = None, err_stderr = None\<rparr>
                      (js '''') (js ''boom'')"
          _ "[\<lparr>role = js ''user'', content = js ''Hello!'', properties = [RoleProperty, ContentProperty]\<rparr>]"
          "\<lparr>message = js ''Execution failed'', killed = False, signal = None,
            err_stdout = None, err_stderr = None\<rparr>"
          "js ''''" "js ''boom''" _
          "\<lparr>g_runtimeDir = js ''/test/runtime'', g_timeout = 30000, g_debug = False,
            g_model = js ''gemini-2.5-flash''\<rparr>"
          test_host]
  by simp

text \<open>
  Claim C3, at the input where the code departs from it. The Gemini adapter, whose
  subprocess is killed by \<open>SIGTERM\<close>, throws the \<open>TimeoutError\<close> of the module
  \<open>gemini_cli\<close>; the handler tests the thrown value against the \<open>TimeoutError\<close> of the
  module \<open>claude_code\<close> only, so for an adapter whose \<open>execute\<close> rejects with that value
  the response has status 500 and type \<open>internal_error\<close>, where the same failure of the
  Claude adapter gives 504 and \<open>timeout_error\<close>.
\<close>

theorem C3_gemini_timeout_gives_500:
  \<open>gemini_execute
      \<lparr>g_runtimeDir = js ''/test/runtime'', g_timeout = 30000, g_debug = False,
       g_model = js ''gemini-2.5-flash''\<rparr>
      test_host
      (\<lambda>inv. Failed \<lparr>message = js ''Command failed'', killed = True,
                        signal = Some (js ''SIGTERM''), err_stdout = None, err_stderr = None\<rparr>
                (js '''') (js ''''))
      [\<lparr>role = js ''user'', content = js ''Hello!'', properties = [RoleProperty, ContentProperty]\<rparr>] =
     Inl (GeminiTimeoutError (js ''Gemini CLI execution timed out''))
   \<and> chatCompletions
      \<lparr>execute = (\<lambda>messages. Inl (GeminiTimeoutError (js ''Gemini CLI execution timed out''))),
       getModelName = js ''gemini-cli''\<rparr>
      (js ''chatcmpl-1'') 1000
      \<lparr>req_messages = MessagesArray [\<lparr>role = js ''user'', content = js ''Hello!'', properties = [RoleProperty, ContentProperty]\<rparr>],
       req_model = None\<rparr> =
     \<lparr>status = 500,
      body = ErrorResponse (js ''Gemini CLI execution timed out'') (js ''internal_error'')
               (js ''internal_error'')\<rparr>
   \<and> chatCompletions
      \<lparr>execute = (\<lambda>messages. Inl (ClaudeTimeoutError (js ''Claude Code execution timed out''))),
       getModelName = js ''claude-code''\<rparr>
      (js ''chatcmpl-1'') 1000
      \<lparr>req_messages = MessagesArray [\<lparr>role = js ''user'', content = js ''Hello!'', properties = [RoleProperty, ContentProperty]\<rparr>],
       req_model = None\<rparr> =
     \<lparr>status = 504,
      body = ErrorResponse (js ''Claude Code execution timed out'') (js ''timeout_error'')
               (js ''timeout'')\<rparr>\<close>
  by (simp add: gemini_execute_def chatCompletions_def instanceofTimeoutError_def
        thrownMessage_def Let_def)
     (simp add: js_def)

text \<open>
  Claim C8. For every kind other than \<open>claude-code\<close>, \<open>create\<close> itself fails: it returns
  no adapter. The message is \<open>Unknown adapter type: \<close> followed by the kind for a kind
  the factory does not know, and the fixed text about Codex or Gemini CLI for the two
  kinds it knows and does not build; in each case no other kind gets the same message,
  so the message tells which kind was requested.
\<close>

theorem C8_factory_fails_at_construction:
  assumes "cfg_type config \<noteq> js ''claude-code''"
  shows \<open>\<exists>msg. create config = Inl msg
           \<and> msg = (if cfg_type config = js ''codex'' then js ''Codex adapter not yet implemented''
                    else if cfg_type config = js ''gemini-cli''
                    then js ''Gemini CLI adapter not yet implemented''
                    else js ''Unknown adapter type: '' @ cfg_type config)
           \<and> (\<forall>config'. create config' = Inl msg \<longrightarrow> cfg_type config' = cfg_type config)\<close>
proof -
  have distinct:
    "js ''Codex adapter not yet implemented'' \<noteq> js ''Gemini CLI adapter not yet implemented''"
    "js ''Codex adapter not yet implemented'' \<noteq> js ''Unknown adapter type: '' @ k"
    "js ''Gemini CLI adapter not yet implemented'' \<noteq> js ''Unknown adapter type: '' @ k"
    for k
    by (simp_all add: js_def)
  have inj: "js ''Unknown adapter type: '' @ k = js ''Unknown adapter type: '' @ k' \<longleftrightarrow> k = k'"
    for k k' :: jstring
    by simp
  show ?thesis
    using assms distinct distinct [symmetric]
    by (auto simp add: create_def inj split: if_splits)
qed

theorem C8_witness:
  \<open>create \<lparr>cfg_type = js ''unknown'', cfg_runtimeDir = js ''/test/runtime'',
            cfg_timeout = 30000, cfg_debug = False, cfg_model = Some (js ''haiku'')\<rparr> =
     Inl (js ''Unknown adapter type: unknown'')
   \<and> js ''unknown'' \<noteq> js ''claude-code''\<close>
proof -
  have ne: "cfg_type \<lparr>cfg_type = js ''unknown'', cfg_runtimeDir = js ''/test/runtime'',
            cfg_timeout = 30000, cfg_debug = False, cfg_model = Some (js ''haiku'')\<rparr>
              \<noteq> js ''claude-code''"
    by (simp add: js_def)
  show ?thesis
    using C8_factory_fails_at_construction [OF ne] by (auto simp add: js_def)
qed

text \<open>
  Claim C9 fails as stated: the total is the estimate of the concatenation of the
  serialized messages and the response text, not the sum of the two estimates. For one
  user message \<open>h\<close> answered by \<open>a\<close> the lengths are 31 and 1: the estimates are 8 and 1,
  the total is 8.
\<close>

theorem C9_counterexample:
  \<open>usage_of
     (chatCompletions
        \<lparr>execute = (\<lambda>messages. Inr (js ''a'')), getModelName = js ''mock-model''\<rparr>
        (js ''chatcmpl-1'') 1000
        \<lparr>req_messages = MessagesArray [\<lparr>role = js ''user'', content = js ''h'', properties = [RoleProperty, ContentProperty]\<rparr>],
         req_model = None\<rparr>) =
     Some \<lparr>prompt_tokens = 8, completion_tokens = 1, total_tokens = 8\<rparr>
   \<and> total_tokens \<lparr>prompt_tokens = 8, completion_tokens = 1, total_tokens = 8\<rparr> \<noteq>
       prompt_tokens \<lparr>prompt_tokens = 8, completion_tokens = 1, total_tokens = 8\<rparr>
       + completion_tokens \<lparr>prompt_tokens = 8, completion_tokens = 1, total_tokens = 8\<rparr>\<close>
proof -
  have quarter: "\<lceil>(1::real) / 4\<rceil> = 1"
    by (simp add: ceiling_eq_iff)
  show ?thesis
    by (simp add: usage_of_def chatCompletions_def estimateTokens_def JSON_stringify_def
          message_json_def QuoteJSONString_def quoteUnit_def isLeadingSurrogate_def
          isTrailingSurrogate_def js_def Let_def quarter)
qed

text \<open>
  Claim C9, amended. For a request with a non-empty message array that the adapter
  answers, the response has status 200 and its usage block holds
  \<open>ceil(length / 4)\<close> of the serialized messages, \<open>ceil(length / 4)\<close> of the response
  text, and as total \<open>ceil(length / 4)\<close> of their concatenation; the total is the sum of
  the two estimates or one less.
\<close>

theorem C9_usage_block:
  assumes "req_messages request = MessagesArray messages" and "messages \<noteq> []"
    and "execute adapter messages = Inr completion"
  shows \<open>let serialized = JSON_stringify 0 (JArr (map message_json messages));
             response = chatCompletions adapter generatedId now request;
             p = \<lceil>real (length serialized) / 4\<rceil>;
             c = \<lceil>real (length completion) / 4\<rceil>;
             t = \<lceil>(real (length serialized) + real (length completion)) / 4\<rceil>
         in status response = 200
            \<and> usage_of response =
                Some \<lparr>prompt_tokens = p, completion_tokens = c, total_tokens = t\<rparr>
            \<and> t \<le> p + c \<and> p + c \<le> t + 1\<close>
proof -
  let ?x = "real (length (JSON_stringify 0 (JArr (map message_json messages)))) / 4"
  let ?y = "real (length completion) / 4"
  have sum: "(real (length (JSON_stringify 0 (JArr (map message_json messages))))
               + real (length completion)) / 4 = ?x + ?y"
    by (simp add: add_divide_distrib)
  have upper: "\<lceil>?x + ?y\<rceil> \<le> \<lceil>?x\<rceil> + \<lceil>?y\<rceil>"
    by (rule ceiling_add_le)
  have lower: "\<lceil>?x\<rceil> + \<lceil>?y\<rceil> \<le> \<lceil>?x + ?y\<rceil> + 1"
    by linarith
  show ?thesis
    using assms upper lower
    by (simp add: chatCompletions_def usage_of_def estimateTokens_def Let_def sum)
qed

theorem C9_witness:
  \<open>status
     (chatCompletions
        \<lparr>execute = (\<lambda>messages. Inr (js ''a'')), getModelName = js ''mock-model''\<rparr>
        (js ''chatcmpl-1'') 1000
        \<lparr>req_messages = MessagesArray [\<lparr>role = js ''user'', content = js ''h'', properties = [RoleProperty, ContentProperty]\<rparr>],
         req_model = None\<rparr>) = 200
   \<and> execute \<lparr>execute = (\<lambda>messages. Inr (js ''a'')), getModelName = js ''mock-model''\<rparr>
        [\<lparr>role = js ''user'', content = js ''h'', properties = [RoleProperty, ContentProperty]\<rparr>] = Inr (js ''a'')\<close>
  using C9_usage_block
    [of "\<lparr>req_messages = MessagesArray [\<lparr>role = js ''user'', content = js ''h'', properties = [RoleProperty, ContentProperty]\<rparr>],
          req_model = None\<rparr>"
        "[\<lparr>role = js ''user'', content = js ''h'', properties = [RoleProperty, ContentProperty]\<rparr>]"
        "\<lparr>execute = (\<lambda>messages. Inr (js ''a'')), getModelName = js ''mock-model''\<rparr>"
        "js ''a''" "js ''chatcmpl-1''" 1000]
  by (simp add: Let_def)

section \<open>Properties of the output normalisation\<close>

lemma removeMatches_unchanged:
  "\<not> matchesSomewhere re prev s \<Longrightarrow> removeMatches re prev s = s"
  by (induction s arbitrary: prev) auto

lemma set_removeMatches: "set (removeMatches re prev s) \<subseteq> set s"
proof (induction re prev s rule: removeMatches.induct)
  case (1 re prev)
  show ?case by simp
next
  case (2 re prev c cs)
  show ?case
  proof (cases "re prev (c # cs)")
    case None
    with 2 show ?thesis by auto
  next
    case (Some n)
    show ?thesis
    proof (cases "n = 0")
      case True
      with 2 Some show ?thesis by auto
    next
      case False
      have "set (drop n (c # cs)) \<subseteq> set (c # cs)"
        by (rule set_drop_subset)
      moreover have "removeMatches re prev (c # cs)
          = removeMatches re (Some (last (take n (c # cs)))) (drop n (c # cs))"
        using Some False by simp
      ultimately show ?thesis
        using 2(3) [OF Some False] by auto
    qed
  qed
qed

lemma front_trimmed:
  "dropWhile P (rev (dropWhile P (rev (dropWhile P s)))) = rev (dropWhile P (rev (dropWhile P s)))"
proof -
  let ?u = "dropWhile P s"
  let ?v = "dropWhile P (rev ?u)"
  have "rev ?u = takeWhile P (rev ?u) @ ?v"
    by simp
  then have u: "?u = rev ?v @ rev (takeWhile P (rev ?u))"
    by (metis rev_append rev_rev_ident)
  show ?thesis
  proof (cases "rev ?v")
    case Nil
    then show ?thesis by (simp only: dropWhile.simps)
  next
    case (Cons x xs)
    then have "hd ?u = x" and "?u \<noteq> []"
      using u by (metis hd_append2 list.sel(1) list.distinct(1), metis Nil_is_append_conv list.distinct(1))
    then have "\<not> P x"
      using hd_dropWhile [of P s] by auto
    with Cons show ?thesis by (simp only: dropWhile.simps if_False)
  qed
qed

lemma trim_trim: "trim (trim s) = trim s"
  by (simp add: trim_def front_trimmed dropWhile_idem)

lemma set_trim: "set (trim s) \<subseteq> set s"
proof
  fix x assume "x \<in> set (trim s)"
  then have "x \<in> set (dropWhile isWhiteSpace (rev (dropWhile isWhiteSpace s)))"
    by (simp add: trim_def)
  then have "x \<in> set (rev (dropWhile isWhiteSpace s))"
    by (rule set_dropWhileD)
  then show "x \<in> set s"
    by (auto dest: set_dropWhileD)
qed

lemma carriageReturnLine_Some:
  assumes "carriageReturnLine prev s = Some n"
  shows "lineStart prev" and "\<exists>run rest. s = run @ 0x0D # rest \<and> n = Suc (length run)"
proof -
  let ?P = "\<lambda>c. \<not> isLineTerminator c"
  show "lineStart prev"
    using assms by (simp add: carriageReturnLine_def split: if_splits)
  have d: "drop (length (takeWhile ?P s)) s = dropWhile ?P s"
    by (simp add: dropWhile_eq_drop)
  from assms obtain rest where "dropWhile ?P s = 0x0D # rest" and "n = Suc (length (takeWhile ?P s))"
    by (auto simp add: carriageReturnLine_def Let_def d split: if_splits list.splits)
  moreover have "s = takeWhile ?P s @ dropWhile ?P s"
    by simp
  ultimately show "\<exists>run rest. s = run @ 0x0D # rest \<and> n = Suc (length run)"
    by metis
qed

lemma carriageReturnLine_None:
  assumes "carriageReturnLine prev s = None" and "lineStart prev"
  shows "case dropWhile (\<lambda>c. \<not> isLineTerminator c) s of [] \<Rightarrow> True | t # _ \<Rightarrow> t \<noteq> 0x0D"
proof -
  have d: "drop (length (takeWhile (\<lambda>c. \<not> isLineTerminator c) s)) s
             = dropWhile (\<lambda>c. \<not> isLineTerminator c) s"
    by (simp add: dropWhile_eq_drop)
  show ?thesis
  proof (cases "dropWhile (\<lambda>c. \<not> isLineTerminator c) s")
    case Nil
    then show ?thesis by (simp only: list.case)
  next
    case (Cons t rest)
    with assms show ?thesis
      unfolding carriageReturnLine_def Let_def d by (simp split: if_splits)
  qed
qed

lemma no_carriage_return_left:
  assumes "re = carriageReturnLine"
    and "lineStart prev \<or>
         (case dropWhile (\<lambda>c. \<not> isLineTerminator c) s of [] \<Rightarrow> True | t # _ \<Rightarrow> t \<noteq> 0x0D)"
  shows "0x0D \<notin> set (removeMatches re prev s)"
  using assms
proof (induction re prev s rule: removeMatches.induct)
  case (1 re prev)
  show ?case by simp
next
  case (2 re prev c cs)
  let ?P = "\<lambda>c. \<not> isLineTerminator c"
  show ?case
  proof (cases "re prev (c # cs)")
    case None
    then have open_line: "case dropWhile ?P (c # cs) of [] \<Rightarrow> True | t # _ \<Rightarrow> t \<noteq> 0x0D"
      using 2(4,5) carriageReturnLine_None [of prev "c # cs"] by auto
    have "c \<noteq> 0x0D"
      using open_line by (auto simp add: isLineTerminator_def split: if_splits)
    moreover have "lineStart (Some c) \<or>
        (case dropWhile ?P cs of [] \<Rightarrow> True | t # _ \<Rightarrow> t \<noteq> 0x0D)"
      using open_line by (auto simp add: lineStart_def split: if_splits)
    ultimately show ?thesis
      using 2(1) [OF None 2(4)] None by simp
  next
    case (Some n)
    then obtain run rest where s: "c # cs = run @ 0x0D # rest" and n: "n = Suc (length run)"
      using 2(4) carriageReturnLine_Some(2) [of prev "c # cs" n] by auto
    have "n \<noteq> 0" using n by simp
    have "take n (c # cs) = run @ [0x0D]"
      unfolding s n by simp
    then have "lineStart (Some (last (take n (c # cs))))"
      by (simp add: lineStart_def isLineTerminator_def)
    then have "0x0D \<notin> set (removeMatches re (Some (last (take n (c # cs)))) (drop n (c # cs)))"
      using 2(3) [OF Some \<open>n \<noteq> 0\<close> 2(4)] by blast
    then show ?thesis
      using Some \<open>n \<noteq> 0\<close> by simp
  qed
qed

lemma carriageReturnLine_needs_CR:
  "0x0D \<notin> set s \<Longrightarrow> \<not> matchesSomewhere carriageReturnLine prev s"
proof (induction s arbitrary: prev)
  case Nil
  show ?case by (simp add: carriageReturnLine_def)
next
  case (Cons c cs)
  have "carriageReturnLine prev (c # cs) = None"
  proof (cases "carriageReturnLine prev (c # cs)")
    case (Some n)
    then obtain run rest where "c # cs = run @ 0x0D # rest"
      using carriageReturnLine_Some(2) by blast
    then have "0x0D \<in> set (c # cs)"
      by (metis in_set_conv_decomp)
    with Cons.prems show ?thesis by simp
  qed simp
  with Cons show ?case by simp
qed

lemma no_prefix: "dropWhile P xs = xs \<Longrightarrow> takeWhile P xs = []"
  by (metis takeWhile_dropWhile_id self_append_conv2)

lemma trim_ends:
  "takeWhile isWhiteSpace (trim s) = []" "takeWhile isWhiteSpace (rev (trim s)) = []"
proof -
  show "takeWhile isWhiteSpace (trim s) = []"
    unfolding trim_def by (rule no_prefix) (rule front_trimmed)
  show "takeWhile isWhiteSpace (rev (trim s)) = []"
    unfolding trim_def rev_rev_ident by (rule no_prefix) (rule dropWhile_idem)
qed

text \<open>
  Claim C5 fails as stated. The spinner pattern removes one bracket or glyph at the start
  of a line, and a second one that stood behind it then starts the line: \<open>[[x\<close> is
  cleaned to \<open>[x\<close>, and \<open>[x\<close> is cleaned to \<open>x\<close>.
\<close>

theorem C5_counterexample:
  "cleanOutput stripAnsi_mock (cleanOutput stripAnsi_mock (js ''[[x'')) \<noteq>
     cleanOutput stripAnsi_mock (js ''[[x'')"
  by (simp add: cleanOutput_def stripAnsi_mock_def js_def sgrSequence_def
        carriageReturnLine_def spinnerStart_def lineStart_def isLineTerminator_def
        isWhiteSpace_def isSpinner_def trim_def)

text \<open>
  Claim C5, amended. The cleaned text never holds a carriage return and is always
  trimmed: it neither starts nor ends with white space, and \<open>trim\<close> leaves it as it is.
  Cleaning a second time changes nothing whenever the cleaned text holds nothing that
  \<open>strip-ansi\<close> removes and no line of it starts with optional white space and a bracket
  or spinner glyph.
\<close>

theorem C5_cleanOutput_stable_on_clean_output:
  "0x0D \<notin> set (cleanOutput strip s)
   \<and> takeWhile isWhiteSpace (cleanOutput strip s) = []
   \<and> takeWhile isWhiteSpace (rev (cleanOutput strip s)) = []
   \<and> trim (cleanOutput strip s) = cleanOutput strip s
   \<and> (strip (cleanOutput strip s) = cleanOutput strip s
        \<and> \<not> matchesSomewhere spinnerStart None (cleanOutput strip s)
      \<longrightarrow> cleanOutput strip (cleanOutput strip s) = cleanOutput strip s)"
proof -
  let ?t = "cleanOutput strip s"
  have "0x0D \<notin> set (removeMatches carriageReturnLine None (strip s))"
    by (rule no_carriage_return_left) (simp_all add: lineStart_def)
  then have no_cr: "0x0D \<notin> set ?t"
    using set_trim set_removeMatches unfolding cleanOutput_def Let_def by blast
  have at_start: "takeWhile isWhiteSpace ?t = []" and at_end: "takeWhile isWhiteSpace (rev ?t) = []"
    unfolding cleanOutput_def Let_def by (rule trim_ends)+
  have trimmed: "trim ?t = ?t"
    unfolding cleanOutput_def Let_def by (rule trim_trim)
  have stable: "cleanOutput strip ?t = ?t"
    if clean: "strip ?t = ?t" and no_spinner: "\<not> matchesSomewhere spinnerStart None ?t"
  proof -
    have "removeMatches carriageReturnLine None ?t = ?t"
      using no_cr by (intro removeMatches_unchanged carriageReturnLine_needs_CR)
    moreover have "removeMatches spinnerStart None ?t = ?t"
      using no_spinner by (rule removeMatches_unchanged)
    ultimately show ?thesis
      using clean trimmed by (simp add: cleanOutput_def [of strip ?t] Let_def)
  qed
  show ?thesis
    using no_cr at_start at_end trimmed stable by blast
qed

theorem C5_witness:
  "cleanOutput stripAnsi_mock (js '' [INFO] a'' @ [0x0D] @ js ''b '') = js ''b''
   \<and> stripAnsi_mock (js ''b'') = js ''b''
   \<and> \<not> matchesSomewhere spinnerStart None (js ''b'')
   \<and> cleanOutput stripAnsi_mock
        (cleanOutput stripAnsi_mock (js '' [INFO] a'' @ [0x0D] @ js ''b '')) = js ''b''
   \<and> 0x0D \<notin> set (cleanOutput stripAnsi_mock (js '' [INFO] a'' @ [0x0D] @ js ''b ''))
   \<and> trim (cleanOutput stripAnsi_mock (js '' [INFO] a'' @ [0x0D] @ js ''b '')) = js ''b''"
proof -
  have 1: "cleanOutput stripAnsi_mock (js '' [INFO] a'' @ [0x0D] @ js ''b '') = js ''b''"
    by (simp add: cleanOutput_def stripAnsi_mock_def js_def sgrSequence_def
        carriageReturnLine_def spinnerStart_def lineStart_def isLineTerminator_def
        isWhiteSpace_def isSpinner_def trim_def)
  have 2: "stripAnsi_mock (js ''b'') = js ''b''"
    by (simp add: stripAnsi_mock_def js_def sgrSequence_def)
  have 3: "\<not> matchesSomewhere spinnerStart None (js ''b'')"
    by (simp add: js_def spinnerStart_def lineStart_def isWhiteSpace_def isSpinner_def)
  show ?thesis
    using C5_cleanOutput_stable_on_clean_output
      [of stripAnsi_mock "js '' [INFO] a'' @ [0x0D] @ js ''b ''"]
    unfolding 1 using 2 3 by simp
qed

section \<open>Properties of \<open>extractResponse\<close>\<close>

lemmas parser_simps =
  JSON_parse_def isJSONWhiteSpace_def isDigit_def isNumberChar_def isJSONNumber_def
  numberInteger_def numberFraction_def numberExponent_def unescape_def hex4_def hexValue_def
  defineProperty_def arrayIndex_def js_def Let_def

lemma parse_candidates_example:
  \<open>JSON_parse num (js ''{"candidates":[{"content":{"parts":[{"text":"A"},{"text":"B"}]}}]}'') =
     Some (JObj [(js ''candidates'',
        JArr [JObj [(js ''content'',
          JObj [(js ''parts'',
            JArr [JObj [(js ''text'', JStr (js ''A''))], JObj [(js ''text'', JStr (js ''B''))]])])]])])\<close>
  by (simp add: parser_simps)

lemma parse_text_example:
  \<open>JSON_parse num (js ''{"text":"hello"}'') = Some (JObj [(js ''text'', JStr (js ''hello''))])\<close>
  by (simp add: parser_simps)

lemma parse_plain_example: \<open>JSON_parse num (js ''hello'') = None\<close>
  by (simp add: parser_simps)

lemma parse_empty_text_example:
  \<open>JSON_parse num (js ''{"text":""}'') = Some (JObj [(js ''text'', JStr (js ''''))])\<close>
  by (simp add: parser_simps)

lemma those_map_Some: "those (map (\<lambda>x. Some (f x)) xs) = Some (map f xs)"
  by (induction xs) simp_all

lemma join_empty_separator: "join [] xs = concat xs"
  by (induction xs rule: induct_list012) simp_all

text \<open>What a part gives when its \<open>text\<close> field is a string or is missing.\<close>

lemma partText_string:
  assumes "part \<noteq> JNull"
    and "case get part (js ''text'') of None \<Rightarrow> True | Some v \<Rightarrow> (\<exists>t. v = JStr t)"
  shows "partText part =
           Some (JStr (case get part (js ''text'') of Some (JStr t) \<Rightarrow> t | _ \<Rightarrow> []))"
  using assms by (cases "get part (js ''text'')") (auto simp add: partText_def)

lemma parts_joined:
  assumes "\<forall>part \<in> set parts. part \<noteq> JNull \<and>
             (case get part (js ''text'') of None \<Rightarrow> True | Some v \<Rightarrow> (\<exists>t. v = JStr t))"
  shows "(case those (map partText parts) of
            None \<Rightarrow> None
          | Some texts \<Rightarrow>
              map_option (\<lambda>strs. JStr (join (js '''') strs)) (those (map ToString texts))) =
         Some (JStr (concat (map (\<lambda>part. case get part (js ''text'') of
                                              Some (JStr t) \<Rightarrow> t | _ \<Rightarrow> []) parts)))"
proof -
  let ?f = "\<lambda>part. case get part (js ''text'') of Some (JStr t) \<Rightarrow> t | _ \<Rightarrow> []"
  have "map partText parts = map (\<lambda>part. Some (JStr (?f part))) parts"
    using assms by (intro map_cong refl partText_string) auto
  then have a: "those (map partText parts) = Some (map (\<lambda>part. JStr (?f part)) parts)"
    by (simp only: those_map_Some)
  have b: "those (map (ToString \<circ> (\<lambda>part. JStr (?f part))) parts) = Some (map ?f parts)"
    using those_map_Some [of ?f parts] by (simp add: comp_def)
  show ?thesis
    unfolding a by (simp add: b join_empty_separator)
qed

lemma extractResponse_nonempty:
  assumes "stdout \<noteq> []"
  shows "extractResponse h stdout =
           (case extractParsed (numberOf h) (trim (stripAnsi h stdout)) of
              Some result \<Rightarrow> result
            | None \<Rightarrow> JStr (cleanOutput (stripAnsi h) (trim (stripAnsi h stdout))))"
  using assms by (simp add: extractResponse_def Let_def)

lemma trim_examples:
  \<open>trim (js ''{"candidates":[{"content":{"parts":[{"text":"A"},{"text":"B"}]}}]}'') =
     js ''{"candidates":[{"content":{"parts":[{"text":"A"},{"text":"B"}]}}]}''\<close>
  \<open>trim (js ''{"text":"hello"}'') = js ''{"text":"hello"}''\<close>
  \<open>trim (js ''hello'') = js ''hello''\<close>
  \<open>trim (js ''{"text":""}'') = js ''{"text":""}''\<close>
  by (simp_all add: trim_def isWhiteSpace_def js_def)

text \<open>
  Claim C4 fails as stated. On \<open>{"text":""}\<close> parsing succeeds and the top-level field
  \<open>text\<close> is present, but it is empty, hence falsy: the function does not return it, it
  returns the document serialized again.
\<close>

theorem C4_counterexample:
  \<open>JSON_parse (numberOf test_host) (trim (stripAnsi test_host (js ''{"text":""}''))) =
     Some (JObj [(js ''text'', JStr (js ''''))])
   \<and> extractResponse test_host (js ''{"text":""}'') = JStr (js ''{"text":""}'')
   \<and> extractResponse test_host (js ''{"text":""}'') \<noteq> JStr (js '''')\<close>
proof -
  have strip: \<open>stripAnsi test_host (js ''{"text":""}'') = js ''{"text":""}''\<close>
    by (simp add: test_host_def stripAnsi_mock_def sgrSequence_def js_def)
  have result: \<open>extractResponse test_host (js ''{"text":""}'') = JStr (js ''{"text":""}'')\<close>
    unfolding extractResponse_def Let_def strip trim_examples extractParsed_def
      parse_empty_text_example
    by (simp add: candidateParts_def JSON_stringify_def QuoteJSONString_def quoteUnit_def
          isLeadingSurrogate_def isTrailingSurrogate_def js_def)
  show ?thesis
    unfolding strip trim_examples result
    by (simp add: parse_empty_text_example) (simp add: js_def)
qed

text \<open>
  Claim C4, amended. For every host: the three examples give \<open>AB\<close>, \<open>hello\<close> and
  \<open>hello\<close> (the last one through the plain-text fallback), provided \<open>strip-ansi\<close> leaves
  these texts as they are. On non-empty output, with the stripped and trimmed text
  parsed: a syntax error and the value \<open>null\<close> fall back to \<open>cleanOutput\<close>; a string is
  returned as it is; a candidates shape whose parts are objects (or other non-null
  values) with a string or no \<open>text\<close> field gives these strings concatenated in array
  order; otherwise a truthy top-level \<open>text\<close> field is returned, else a truthy top-level
  \<open>response\<close> field, else the document serialized again. The result is a string unless
  the \<open>text\<close> or \<open>response\<close> field that is returned is not one.
\<close>

theorem C4_extractResponse_chain:
  fixes h :: host and stdout :: jstring
  defines "cleaned \<equiv> trim (stripAnsi h stdout)"
  defines "parsed \<equiv> JSON_parse (numberOf h) cleaned"
  shows
  \<open>(stripAnsi h (js ''{"candidates":[{"content":{"parts":[{"text":"A"},{"text":"B"}]}}]}'')
        = js ''{"candidates":[{"content":{"parts":[{"text":"A"},{"text":"B"}]}}]}''
      \<longrightarrow> extractResponse h
            (js ''{"candidates":[{"content":{"parts":[{"text":"A"},{"text":"B"}]}}]}'')
          = JStr (js ''AB''))
   \<and> (stripAnsi h (js ''{"text":"hello"}'') = js ''{"text":"hello"}''
      \<longrightarrow> extractResponse h (js ''{"text":"hello"}'') = JStr (js ''hello''))
   \<and> (stripAnsi h (js ''hello'') = js ''hello''
      \<longrightarrow> extractResponse h (js ''hello'') = JStr (js ''hello''))
   \<and> (stdout \<noteq> [] \<and> (parsed = None \<or> parsed = Some JNull)
      \<longrightarrow> extractResponse h stdout = JStr (cleanOutput (stripAnsi h) cleaned))
   \<and> (stdout \<noteq> [] \<and> parsed = Some (JStr s)
      \<longrightarrow> extractResponse h stdout = JStr s)
   \<and> (stdout \<noteq> [] \<and> parsed = Some v \<and> v \<noteq> JNull \<and> (\<forall>s. v \<noteq> JStr s)
        \<and> candidateParts v = Some parts
        \<and> (\<forall>part \<in> set parts. part \<noteq> JNull \<and>
              (case get part (js ''text'') of None \<Rightarrow> True | Some t \<Rightarrow> (\<exists>s. t = JStr s)))
      \<longrightarrow> extractResponse h stdout =
            JStr (concat (map (\<lambda>part. case get part (js ''text'') of
                                         Some (JStr t) \<Rightarrow> t | _ \<Rightarrow> []) parts)))
   \<and> (stdout \<noteq> [] \<and> parsed = Some v \<and> v \<noteq> JNull \<and> (\<forall>s. v \<noteq> JStr s)
        \<and> candidateParts v = None
      \<longrightarrow> extractResponse h stdout =
            (if truthy (get v (js ''text'')) then the (get v (js ''text''))
             else if truthy (get v (js ''response'')) then the (get v (js ''response''))
             else JStr (JSON_stringify 0 v)))
   \<and> ((\<forall>v t. parsed = Some v \<and> candidateParts v = None \<and> truthy (Some t)
             \<and> (get v (js ''text'') = Some t
                 \<or> \<not> truthy (get v (js ''text'')) \<and> get v (js ''response'') = Some t)
           \<longrightarrow> (\<exists>s. t = JStr s))
      \<longrightarrow> (\<exists>s. extractResponse h stdout = JStr s))\<close>
proof -
  have ex1:
    \<open>stripAnsi h (js ''{"candidates":[{"content":{"parts":[{"text":"A"},{"text":"B"}]}}]}'')
        = js ''{"candidates":[{"content":{"parts":[{"text":"A"},{"text":"B"}]}}]}''
      \<Longrightarrow> extractResponse h
            (js ''{"candidates":[{"content":{"parts":[{"text":"A"},{"text":"B"}]}}]}'')
          = JStr (js ''AB'')\<close>
  proof -
    assume strip:
      \<open>stripAnsi h (js ''{"candidates":[{"content":{"parts":[{"text":"A"},{"text":"B"}]}}]}'')
        = js ''{"candidates":[{"content":{"parts":[{"text":"A"},{"text":"B"}]}}]}''\<close>
    have ne: \<open>js ''{"candidates":[{"content":{"parts":[{"text":"A"},{"text":"B"}]}}]}'' \<noteq> []\<close>
      by (simp add: js_def)
    show ?thesis
      unfolding extractResponse_nonempty [OF ne] strip trim_examples extractParsed_def
        parse_candidates_example
      by (simp add: candidateParts_def partText_def js_def)
  qed
  have ex2: \<open>stripAnsi h (js ''{"text":"hello"}'') = js ''{"text":"hello"}''
      \<Longrightarrow> extractResponse h (js ''{"text":"hello"}'') = JStr (js ''hello'')\<close>
  proof -
    assume strip: \<open>stripAnsi h (js ''{"text":"hello"}'') = js ''{"text":"hello"}''\<close>
    have ne: \<open>js ''{"text":"hello"}'' \<noteq> []\<close>
      by (simp add: js_def)
    show ?thesis
      unfolding extractResponse_nonempty [OF ne] strip trim_examples extractParsed_def
        parse_text_example
      by (simp add: candidateParts_def js_def)
  qed
  have ex3: \<open>stripAnsi h (js ''hello'') = js ''hello''
      \<Longrightarrow> extractResponse h (js ''hello'') = JStr (js ''hello'')\<close>
  proof -
    assume strip: \<open>stripAnsi h (js ''hello'') = js ''hello''\<close>
    have ne: \<open>js ''hello'' \<noteq> []\<close>
      by (simp add: js_def)
    have \<open>cleanOutput (stripAnsi h) (js ''hello'') = js ''hello''\<close>
      unfolding cleanOutput_def Let_def strip
      by (simp add: carriageReturnLine_def spinnerStart_def lineStart_def
            isLineTerminator_def isWhiteSpace_def isSpinner_def trim_def js_def)
    then show ?thesis
      unfolding extractResponse_nonempty [OF ne] strip trim_examples extractParsed_def
        parse_plain_example
      by simp
  qed
  have fallback: "stdout \<noteq> [] \<and> (parsed = None \<or> parsed = Some JNull)
      \<longrightarrow> extractResponse h stdout = JStr (cleanOutput (stripAnsi h) cleaned)"
    by (auto simp add: extractResponse_nonempty extractParsed_def cleaned_def parsed_def)
  have string: "stdout \<noteq> [] \<and> parsed = Some (JStr s) \<longrightarrow> extractResponse h stdout = JStr s"
    by (auto simp add: extractResponse_nonempty extractParsed_def cleaned_def parsed_def)
  have shape: "stdout \<noteq> [] \<and> parsed = Some v \<and> v \<noteq> JNull \<and> (\<forall>s. v \<noteq> JStr s)
        \<and> candidateParts v = Some parts
        \<and> (\<forall>part \<in> set parts. part \<noteq> JNull \<and>
              (case get part (js ''text'') of None \<Rightarrow> True | Some t \<Rightarrow> (\<exists>s. t = JStr s)))
      \<longrightarrow> extractResponse h stdout =
            JStr (concat (map (\<lambda>part. case get part (js ''text'') of
                                         Some (JStr t) \<Rightarrow> t | _ \<Rightarrow> []) parts))"
  proof (intro impI, elim conjE)
    assume a: "stdout \<noteq> []" "parsed = Some v" "v \<noteq> JNull" "\<forall>s. v \<noteq> JStr s"
      "candidateParts v = Some parts"
      and b: "\<forall>part \<in> set parts. part \<noteq> JNull \<and>
              (case get part (js ''text'') of None \<Rightarrow> True | Some t \<Rightarrow> (\<exists>s. t = JStr s))"
    have "extractParsed (numberOf h) cleaned =
        Some (JStr (concat (map (\<lambda>part. case get part (js ''text'') of
                                         Some (JStr t) \<Rightarrow> t | _ \<Rightarrow> []) parts)))"
      using a parts_joined [OF b]
      by (cases v) (simp_all add: extractParsed_def parsed_def)
    then show "extractResponse h stdout =
            JStr (concat (map (\<lambda>part. case get part (js ''text'') of
                                         Some (JStr t) \<Rightarrow> t | _ \<Rightarrow> []) parts))"
      using a(1) by (simp add: extractResponse_nonempty cleaned_def)
  qed
  have fields: "stdout \<noteq> [] \<and> parsed = Some v \<and> v \<noteq> JNull \<and> (\<forall>s. v \<noteq> JStr s)
        \<and> candidateParts v = None
      \<longrightarrow> extractResponse h stdout =
            (if truthy (get v (js ''text'')) then the (get v (js ''text''))
             else if truthy (get v (js ''response'')) then the (get v (js ''response''))
             else JStr (JSON_stringify 0 v))"
  proof (intro impI, elim conjE)
    assume a: "stdout \<noteq> []" "parsed = Some v" "v \<noteq> JNull" "\<forall>s. v \<noteq> JStr s"
      "candidateParts v = None"
    have t: "truthy x \<Longrightarrow> x = Some (the x)" for x
      by (cases x) simp_all
    have "extractParsed (numberOf h) cleaned =
        Some (if truthy (get v (js ''text'')) then the (get v (js ''text''))
              else if truthy (get v (js ''response'')) then the (get v (js ''response''))
              else JStr (JSON_stringify 0 v))"
      using a t [of "get v (js ''text'')"] t [of "get v (js ''response'')"]
      by (cases v) (simp_all add: extractParsed_def parsed_def)
    then show "extractResponse h stdout =
            (if truthy (get v (js ''text'')) then the (get v (js ''text''))
             else if truthy (get v (js ''response'')) then the (get v (js ''response''))
             else JStr (JSON_stringify 0 v))"
      using a(1) by (simp add: extractResponse_nonempty cleaned_def)
  qed
  have is_text: "(\<forall>v t. parsed = Some v \<and> candidateParts v = None \<and> truthy (Some t)
             \<and> (get v (js ''text'') = Some t
                 \<or> \<not> truthy (get v (js ''text'')) \<and> get v (js ''response'') = Some t)
           \<longrightarrow> (\<exists>s. t = JStr s))
      \<longrightarrow> (\<exists>s. extractResponse h stdout = JStr s)"
  proof
    assume typed: "\<forall>v t. parsed = Some v \<and> candidateParts v = None \<and> truthy (Some t)
             \<and> (get v (js ''text'') = Some t
                 \<or> \<not> truthy (get v (js ''text'')) \<and> get v (js ''response'') = Some t)
           \<longrightarrow> (\<exists>s. t = JStr s)"
    show "\<exists>s. extractResponse h stdout = JStr s"
    proof (cases "stdout = []")
      case True
      then show ?thesis by (simp add: extractResponse_def)
    next
      case False
      have opt: "(\<exists>s. r = Some (JStr s)) \<or> r = None \<Longrightarrow>
          \<exists>s. (case r of Some result \<Rightarrow> result
                | None \<Rightarrow> JStr (cleanOutput (stripAnsi h) cleaned)) = JStr s" for r
        by auto
      have "(\<exists>s. extractParsed (numberOf h) cleaned = Some (JStr s))
            \<or> extractParsed (numberOf h) cleaned = None"
      proof (cases parsed)
        case None
        then show ?thesis by (simp add: extractParsed_def parsed_def)
      next
        case (Some v)
        show ?thesis
        proof (cases "candidateParts v")
          case (Some parts)
          then show ?thesis
            using \<open>parsed = Some v\<close>
            by (cases v; cases "those (map partText parts)")
               (auto simp add: extractParsed_def parsed_def)
        next
          case None
          have t: "truthy x \<Longrightarrow> \<exists>y. x = Some y \<and> truthy (Some y)" for x
            by (cases x) simp_all
          show ?thesis
          proof (cases "truthy (get v (js ''text''))")
            case True
            then obtain y where "get v (js ''text'') = Some y" "truthy (Some y)"
              using t by blast
            then obtain s where "y = JStr s"
              using typed \<open>parsed = Some v\<close> None by blast
            then show ?thesis
              using \<open>parsed = Some v\<close> None True \<open>get v (js ''text'') = Some y\<close>
              by (cases v) (simp_all add: extractParsed_def parsed_def)
          next
            case False
            show ?thesis
            proof (cases "truthy (get v (js ''response''))")
              case True
              then obtain y where y: "get v (js ''response'') = Some y" "truthy (Some y)"
                using t by blast
              then obtain s where "y = JStr s"
                using typed \<open>parsed = Some v\<close> None False by blast
              then show ?thesis
                using \<open>parsed = Some v\<close> None True False y
                by (cases v) (simp_all add: extractParsed_def parsed_def)
            next
              case no_response: False
              show ?thesis
                using \<open>parsed = Some v\<close> None False no_response
                by (cases v) (simp_all add: extractParsed_def parsed_def)
            qed
          qed
        qed
      qed
      then show ?thesis
        unfolding extractResponse_nonempty [OF False] cleaned_def [symmetric] by (rule opt)
    qed
  qed
  show ?thesis
    using ex1 ex2 ex3 fallback string shape fields is_text by blast
qed

lemma stripAnsi_mock_examples:
  \<open>stripAnsi_mock (js ''{"candidates":[{"content":{"parts":[{"text":"A"},{"text":"B"}]}}]}'') =
     js ''{"candidates":[{"content":{"parts":[{"text":"A"},{"text":"B"}]}}]}''\<close>
  \<open>stripAnsi_mock (js ''{"text":"hello"}'') = js ''{"text":"hello"}''\<close>
  \<open>stripAnsi_mock (js ''hello'') = js ''hello''\<close>
  \<open>stripAnsi_mock (js ''{"text":"","response":"r"}'') = js ''{"text":"","response":"r"}''\<close>
  by (simp_all add: stripAnsi_mock_def sgrSequence_def js_def)

lemma parse_response_example:
  \<open>JSON_parse num (js ''{"text":"","response":"r"}'') =
     Some (JObj [(js ''text'', JStr (js '''')), (js ''response'', JStr (js ''r''))])\<close>
  by (simp add: parser_simps)

theorem C4_witness:
  \<open>extractResponse test_host
      (js ''{"candidates":[{"content":{"parts":[{"text":"A"},{"text":"B"}]}}]}'') = JStr (js ''AB'')
   \<and> extractResponse test_host (js ''{"text":"hello"}'') = JStr (js ''hello'')
   \<and> extractResponse test_host (js ''hello'') = JStr (js ''hello'')
   \<and> extractResponse test_host (js ''{"text":"","response":"r"}'') = JStr (js ''r'')\<close>
proof -
  let ?v = \<open>JObj [(js ''text'', JStr (js '''')), (js ''response'', JStr (js ''r''))]\<close>
  have strip [simp]: "stripAnsi test_host = stripAnsi_mock"
    by (simp add: test_host_def)
  have trimmed: \<open>trim (js ''{"text":"","response":"r"}'') = js ''{"text":"","response":"r"}''\<close>
    by (simp add: trim_def isWhiteSpace_def js_def)
  have ne: \<open>js ''{"text":"","response":"r"}'' \<noteq> []\<close>
    by (simp add: js_def)
  have shape: "candidateParts ?v = None"
    by (simp add: candidateParts_def js_def)
  have response: "(if truthy (get ?v (js ''text'')) then the (get ?v (js ''text''))
             else if truthy (get ?v (js ''response'')) then the (get ?v (js ''response''))
             else JStr (JSON_stringify 0 ?v)) = JStr (js ''r'')"
    by (simp add: js_def)
  note chain = C4_extractResponse_chain
    [where h = test_host and stdout = \<open>js ''{"text":"","response":"r"}''\<close> and v = ?v]
  have \<open>extractResponse test_host (js ''{"text":"","response":"r"}'') = JStr (js ''r'')\<close>
    using chain ne shape
    unfolding strip stripAnsi_mock_examples trimmed parse_response_example response
    by simp
  then show ?thesis
    using chain by (simp add: stripAnsi_mock_examples)
qed

end
